theory Spec2Isabelle
  imports Main "HOL-Library.List_Lexorder" "HOL-Library.Char_ord"
begin

section \<open>The database quota driver (DbQuotaDriver)\<close>

text \<open>
  A shallow embedding of \<^verbatim>\<open>neutron/db/quota/driver.py\<close>. Tenant identifiers and
  resource keys are Python strings; \<^verbatim>\<open>sorted\<close> on a list of keys is \<open>sort\<close> in the
  lexicographic order of strings. Limits, usages and deltas are Python integers.
\<close>

subsection \<open>Data model\<close>

text \<open>The exceptions the driver raises, and the \<^verbatim>\<open>KeyError\<close> of a failed dictionary
  subscript.\<close>

datatype error =
    OverQuota "string list"
  | InvalidQuotaValue "string list"
  | TenantQuotaNotFound string
  | KeyError string
  | DBDeadlock

text \<open>A row of \<^verbatim>\<open>quota_models.Quota\<close>: one override limit of a tenant.\<close>

record quota =
  quota_tenant_id :: string
  quota_resource :: string
  quota_limit :: int

text \<open>
  Modelled from the spec: the reservation rows live in \<^verbatim>\<open>neutron.db.quota\<close>, which is
  not part of the source. A reservation has a unique id, a tenant, a mapping from
  resource kind to signed delta, a creation timestamp and an expiry timestamp.
\<close>

record reservation =
  resv_id :: nat
  resv_tenant_id :: string
  resv_deltas :: "(string \<times> int) list"
  resv_created :: nat
  resv_expiration :: nat

text \<open>The tables reached through \<^verbatim>\<open>context.session\<close>.\<close>

record store =
  quotas :: "quota list"
  reservations :: "reservation list"
  next_id :: nat

text \<open>
  The request context: the session, the rights and the tenant of the caller (which the
  access checks read), the clock reading of the request, the expiry horizon of a new
  reservation, and the log of the invocations of the counting capability (resource key
  and tenant), which is not part of the store.
\<close>

record req_context =
  session :: store
  is_admin :: bool
  is_advsvc :: bool
  tenant_id :: string
  now :: nat
  horizon :: nat
  counted :: "(string \<times> string) list"

text \<open>A registered resource: its \<^verbatim>\<open>default\<close> limit and its \<^verbatim>\<open>count\<close> capability, a
  function of the tenant.\<close>

record resource_kind =
  default_limit :: int
  count_usage :: "string \<Rightarrow> int"

subsection \<open>Transactions\<close>

text \<open>
  Modelled from the spec: \<^verbatim>\<open>context.session.begin()\<close> and
  \<^verbatim>\<open>db_api.autonested_transaction\<close> are not part of the source. The block runs as one
  atomic transaction: an exception leaving the block rolls the store back to what it
  was on entry, a normal exit commits. Only the store is rolled back.
\<close>

definition session_begin ::
  "(req_context \<Rightarrow> (error + 'a) \<times> req_context) \<Rightarrow> req_context \<Rightarrow> (error + 'a) \<times> req_context" where
  "session_begin body ctx =
     (case body ctx of
        (Inl e, ctx') \<Rightarrow> (Inl e, ctx'\<lparr>session := session ctx\<rparr>)
      | (Inr v, ctx') \<Rightarrow> (Inr v, ctx'))"

definition autonested_transaction ::
  "(req_context \<Rightarrow> (error + 'a) \<times> req_context) \<Rightarrow> req_context \<Rightarrow> (error + 'a) \<times> req_context" where
  "autonested_transaction body ctx = session_begin body ctx"

subsection \<open>The quota limit table\<close>

text \<open>
  Modelled from the spec: \<^verbatim>\<open>common_db.model_query\<close> is not part of the source. It is
  the query of the quota rows that carries the access check of the context (the
  docstring of \<^verbatim>\<open>get_tenant_quotas\<close> has the context "for access checks"): a context
  with neither admin nor advanced-service rights is narrowed to the rows of its own
  tenant, any other context reads every row.
\<close>

definition model_query :: "req_context \<Rightarrow> quota list" where
  "model_query ctx =
     (if \<not> is_admin ctx \<and> \<not> is_advsvc ctx
      then filter (\<lambda>q. quota_tenant_id q = tenant_id ctx) (quotas (session ctx))
      else quotas (session ctx))"

text \<open>\<^verbatim>\<open>get_tenant_quotas\<close>: the defaults of the registry, then every override row of
  the tenant that the scoped query returns, written over them in query order.\<close>

definition get_tenant_quotas ::
  "req_context \<Rightarrow> (string \<rightharpoonup> resource_kind) \<Rightarrow> string \<Rightarrow> (string \<rightharpoonup> int)" where
  "get_tenant_quotas ctx resources tenant =
     foldl (\<lambda>tenant_quota item. tenant_quota(quota_resource item \<mapsto> quota_limit item))
       (\<lambda>key. map_option default_limit (resources key))
       (filter (\<lambda>item. quota_tenant_id item = tenant) (model_query ctx))"

text \<open>\<^verbatim>\<open>delete_tenant_quota\<close>: the query's \<^verbatim>\<open>delete()\<close> returns the number of rows it
  removed; zero raises.\<close>

definition delete_tenant_quota :: "req_context \<Rightarrow> string \<Rightarrow> (error + unit) \<times> req_context" where
  "delete_tenant_quota ctx tenant =
     session_begin (\<lambda>c.
       let tenant_quotas = filter (\<lambda>q. quota_tenant_id q = tenant) (quotas (session c));
           c' = c\<lparr>session := (session c)
                  \<lparr>quotas := filter (\<lambda>q. quota_tenant_id q \<noteq> tenant) (quotas (session c))\<rparr>\<rparr>
       in if length tenant_quotas = 0 then (Inl (TenantQuotaNotFound tenant), c')
          else (Inr (), c')) ctx"

text \<open>\<^verbatim>\<open>update_quota_limit\<close>: the first row of the tenant and resource is updated in
  place; when there is none a row is added.\<close>

fun update_first :: "string \<Rightarrow> string \<Rightarrow> int \<Rightarrow> quota list \<Rightarrow> quota list" where
  "update_first tenant res lim [] = []"
| "update_first tenant res lim (q # qs) =
     (if quota_tenant_id q = tenant \<and> quota_resource q = res
      then q\<lparr>quota_limit := lim\<rparr> # qs
      else q # update_first tenant res lim qs)"

definition update_quota_limit ::
  "req_context \<Rightarrow> string \<Rightarrow> string \<Rightarrow> int \<Rightarrow> (error + unit) \<times> req_context" where
  "update_quota_limit ctx tenant res lim =
     session_begin (\<lambda>c.
       let rows = quotas (session c) in
       case find (\<lambda>q. quota_tenant_id q = tenant \<and> quota_resource q = res) rows of
         Some tenant_quota \<Rightarrow>
           (Inr (), c\<lparr>session := (session c)\<lparr>quotas := update_first tenant res lim rows\<rparr>\<rparr>)
       | None \<Rightarrow>
           (Inr (), c\<lparr>session := (session c)
              \<lparr>quotas := rows @ [\<lparr>quota_tenant_id = tenant, quota_resource = res,
                                  quota_limit = lim\<rparr>]\<rparr>\<rparr>)) ctx"

text \<open>\<^verbatim>\<open>_get_quotas\<close> copies the dictionary of \<^verbatim>\<open>get_tenant_quotas\<close>.\<close>

definition get_quotas ::
  "req_context \<Rightarrow> string \<Rightarrow> (string \<rightharpoonup> resource_kind) \<Rightarrow> (string \<rightharpoonup> int)" where
  "get_quotas ctx tenant resources = get_tenant_quotas ctx resources tenant"

subsection \<open>The limit checker\<close>

text \<open>The comprehension that collects the keys over their limit: \<^verbatim>\<open>quotas[key]\<close> raises
  \<^verbatim>\<open>KeyError\<close> at the first key, in the order of \<^verbatim>\<open>values.items()\<close>, that has no
  limit.\<close>

fun over_keys :: "(string \<rightharpoonup> int) \<Rightarrow> (string \<times> int) list \<Rightarrow> error + string list" where
  "over_keys limits [] = Inr []"
| "over_keys limits ((key, val) # rest) =
     (case limits key of
        None \<Rightarrow> Inl (KeyError key)
      | Some lim \<Rightarrow>
          (case over_keys limits rest of
             Inl e \<Rightarrow> Inl e
           | Inr overs \<Rightarrow> Inr (if 0 \<le> lim \<and> lim < val then key # overs else overs)))"

text \<open>\<^verbatim>\<open>limit_check\<close>; the dictionary \<^verbatim>\<open>values\<close> is the list of its items. The method
  only reads the store, so the context it returns is the one it was given.\<close>

definition limit_check ::
  "req_context \<Rightarrow> string \<Rightarrow> (string \<rightharpoonup> resource_kind) \<Rightarrow> (string \<times> int) list
     \<Rightarrow> (error + unit) \<times> req_context" where
  "limit_check ctx tenant resources vals =
     (let unders = map fst (filter (\<lambda>(key, val). val < 0) vals) in
      if unders \<noteq> [] then (Inl (InvalidQuotaValue (sort unders)), ctx)
      else
        (case over_keys (get_quotas ctx tenant resources) vals of
           Inl e \<Rightarrow> (Inl e, ctx)
         | Inr overs \<Rightarrow>
             if overs \<noteq> [] then (Inl (OverQuota (sort overs)), ctx) else (Inr (), ctx)))"

subsection \<open>The reservation store\<close>

text \<open>
  Modelled from the spec: \<^verbatim>\<open>quota_api.get_reservations_for_resources\<close>,
  \<^verbatim>\<open>quota_api.remove_expired_reservations\<close> and \<^verbatim>\<open>quota_api.create_reservation\<close> are
  not part of the source. A reservation is expired when its expiry timestamp is past.
  The aggregate query maps each of the given resource kinds for which the tenant has a
  matching reservation delta to the sum of those deltas; reclamation removes the
  expired reservation rows of the tenant; creation adds one row with a fresh id and
  returns the id.
\<close>

definition get_reservations_for_resources ::
  "req_context \<Rightarrow> string \<Rightarrow> string list \<Rightarrow> bool \<Rightarrow> (string \<rightharpoonup> int)" where
  "get_reservations_for_resources ctx tenant resources expired = (\<lambda>r.
     let amounts = concat (map (\<lambda>rv. map snd (filter (\<lambda>(k, d). k = r) (resv_deltas rv)))
           (filter (\<lambda>rv. resv_tenant_id rv = tenant \<and> (resv_expiration rv < now ctx) = expired)
              (reservations (session ctx))))
     in if r \<in> set resources \<and> amounts \<noteq> [] then Some (sum_list amounts) else None)"

definition remove_expired_reservations :: "req_context \<Rightarrow> string \<Rightarrow> req_context" where
  "remove_expired_reservations ctx tenant =
     ctx\<lparr>session := (session ctx)
       \<lparr>reservations :=
          filter (\<lambda>rv. \<not> (resv_tenant_id rv = tenant \<and> resv_expiration rv < now ctx))
            (reservations (session ctx))\<rparr>\<rparr>"

definition new_reservation :: "req_context \<Rightarrow> string \<Rightarrow> (string \<times> int) list \<Rightarrow> reservation" where
  "new_reservation ctx tenant deltas =
     \<lparr>resv_id = next_id (session ctx), resv_tenant_id = tenant, resv_deltas = deltas,
      resv_created = now ctx, resv_expiration = now ctx + horizon ctx\<rparr>"

definition create_reservation ::
  "req_context \<Rightarrow> string \<Rightarrow> (string \<times> int) list \<Rightarrow> nat \<times> req_context" where
  "create_reservation ctx tenant deltas =
     (next_id (session ctx),
      ctx\<lparr>session := (session ctx)
        \<lparr>reservations := reservations (session ctx) @ [new_reservation ctx tenant deltas],
         next_id := Suc (next_id (session ctx))\<rparr>\<rparr>)"

subsection \<open>The reservation engine\<close>

definition handle_expired_reservations :: "req_context \<Rightarrow> string \<Rightarrow> req_context" where
  "handle_expired_reservations ctx tenant = remove_expired_reservations ctx tenant"

text \<open>The dictionary \<^verbatim>\<open>current_usages\<close>: \<^verbatim>\<open>resources[resource]\<close> raises \<^verbatim>\<open>KeyError\<close>
  for a resource that is not registered; each call of \<^verbatim>\<open>count\<close> is logged.\<close>

fun count_resources ::
  "(string \<rightharpoonup> resource_kind) \<Rightarrow> string \<Rightarrow> string list \<Rightarrow> req_context
     \<Rightarrow> (error + (string \<times> int) list) \<times> req_context" where
  "count_resources resources tenant [] ctx = (Inr [], ctx)"
| "count_resources resources tenant (r # rs) ctx =
     (case resources r of
        None \<Rightarrow> (Inl (KeyError r), ctx)
      | Some res \<Rightarrow>
          (let usage = count_usage res tenant;
               ctx' = ctx\<lparr>counted := counted ctx @ [(r, tenant)]\<rparr>
           in case count_resources resources tenant rs ctx' of
                (Inl e, ctx'') \<Rightarrow> (Inl e, ctx'')
              | (Inr usages, ctx'') \<Rightarrow> (Inr ((r, usage) # usages), ctx'')))"

text \<open>The loop over \<^verbatim>\<open>requested_resources\<close> that verifies the request against the
  current limits; \<^verbatim>\<open>expired_deltas\<close> was read before the loop.\<close>

fun check_headroom ::
  "(string \<rightharpoonup> int) \<Rightarrow> (string \<rightharpoonup> int) \<Rightarrow> (string \<rightharpoonup> int) \<Rightarrow> (string \<rightharpoonup> int) \<Rightarrow> string
     \<Rightarrow> string list \<Rightarrow> string list \<Rightarrow> req_context \<Rightarrow> (error + string list) \<times> req_context" where
  "check_headroom current_limits current_usages expired_deltas deltas tenant []
       resources_over_limit ctx = (Inr resources_over_limit, ctx)"
| "check_headroom current_limits current_usages expired_deltas deltas tenant (r # rs)
       resources_over_limit ctx =
     (let expired_reservations = (case expired_deltas r of None \<Rightarrow> 0 | Some d \<Rightarrow> d) in
      case current_usages r of
        None \<Rightarrow> (Inl (KeyError r), ctx)
      | Some usage \<Rightarrow>
          (let total_usage = usage - expired_reservations in
           case current_limits r of
             None \<Rightarrow> (Inl (KeyError r), ctx)
           | Some lim \<Rightarrow>
               (let res_headroom = lim - total_usage in
                case deltas r of
                  None \<Rightarrow> (Inl (KeyError r), ctx)
                | Some delta \<Rightarrow>
                    check_headroom current_limits current_usages expired_deltas deltas tenant rs
                      (if res_headroom < delta then resources_over_limit @ [r]
                       else resources_over_limit)
                      (if expired_reservations \<noteq> 0 then handle_expired_reservations ctx tenant
                       else ctx))))"

text \<open>The requested resource kinds that are not unlimited: the set of the keys of
  \<^verbatim>\<open>deltas\<close> minus the keys of \<^verbatim>\<open>current_limits\<close> with a negative limit. The order in
  which Python iterates over the set is not fixed; the model takes that of \<^verbatim>\<open>deltas\<close>.\<close>

definition requested_resources ::
  "req_context \<Rightarrow> string \<Rightarrow> (string \<rightharpoonup> resource_kind) \<Rightarrow> (string \<times> int) list \<Rightarrow> string list" where
  "requested_resources ctx tenant resources deltas =
     (let current_limits = get_tenant_quotas ctx resources tenant
      in filter (\<lambda>r. \<not> (case current_limits r of Some lim \<Rightarrow> lim < 0 | None \<Rightarrow> False))
           (remdups (map fst deltas)))"

text \<open>The block under \<^verbatim>\<open>autonested_transaction\<close>. The \<^verbatim>\<open>plugin\<close> argument is only
  handed to \<^verbatim>\<open>count\<close> and is left out.\<close>

definition make_reservation_body ::
  "string \<Rightarrow> (string \<rightharpoonup> resource_kind) \<Rightarrow> (string \<times> int) list \<Rightarrow> req_context
     \<Rightarrow> (error + nat) \<times> req_context" where
  "make_reservation_body tenant resources deltas ctx =
     (let current_limits = get_tenant_quotas ctx resources tenant;
          requested = requested_resources ctx tenant resources deltas
      in case count_resources resources tenant requested ctx of
           (Inl e, ctx1) \<Rightarrow> (Inl e, ctx1)
         | (Inr current_usages, ctx1) \<Rightarrow>
             (let expired_deltas = get_reservations_for_resources ctx1 tenant requested True
              in case check_headroom current_limits (map_of current_usages) expired_deltas
                        (map_of deltas) tenant requested [] ctx1 of
                   (Inl e, ctx2) \<Rightarrow> (Inl e, ctx2)
                 | (Inr resources_over_limit, ctx2) \<Rightarrow>
                     if resources_over_limit \<noteq> []
                     then (Inl (OverQuota (sort resources_over_limit)), ctx2)
                     else (case create_reservation ctx2 tenant deltas of
                             (rid, ctx3) \<Rightarrow> (Inr rid, ctx3))))"

text \<open>\<^verbatim>\<open>make_reservation\<close>. The decorator \<^verbatim>\<open>wrap_db_retry\<close> runs the method again when
  the database reports a deadlock, which a store used by one request at a time never
  does; the method is its body.\<close>

definition make_reservation ::
  "req_context \<Rightarrow> string \<Rightarrow> (string \<rightharpoonup> resource_kind) \<Rightarrow> (string \<times> int) list
     \<Rightarrow> (error + nat) \<times> req_context" where
  "make_reservation ctx tenant resources deltas =
     autonested_transaction (make_reservation_body tenant resources deltas) ctx"

subsection \<open>Well-formed stores and the headroom of the specification\<close>

text \<open>The quota limit table maps a tenant and a resource kind to one limit: no two
  override rows share both.\<close>

definition one_limit_per_key :: "store \<Rightarrow> bool" where
  "one_limit_per_key s =
     distinct (map (\<lambda>q. (quota_tenant_id q, quota_resource q)) (quotas s))"

text \<open>Writing override rows over a dictionary, as the loop of \<^verbatim>\<open>get_tenant_quotas\<close>
  does.\<close>

definition overlay :: "(string \<rightharpoonup> int) \<Rightarrow> quota list \<Rightarrow> (string \<rightharpoonup> int)" where
  "overlay m rows =
     foldl (\<lambda>tenant_quota item. tenant_quota(quota_resource item \<mapsto> quota_limit item)) m rows"

text \<open>The context passes the access check of the quota rows of a tenant.\<close>

definition reads_rows_of :: "req_context \<Rightarrow> string \<Rightarrow> bool" where
  "reads_rows_of ctx tenant = (is_admin ctx \<or> is_advsvc ctx \<or> tenant_id ctx = tenant)"

text \<open>The words of the specification: a proposed value strictly exceeds its effective
  limit, and the limit is not negative.\<close>

definition exceeds_limit ::
  "req_context \<Rightarrow> string \<Rightarrow> (string \<rightharpoonup> resource_kind) \<Rightarrow> string \<times> int \<Rightarrow> bool" where
  "exceeds_limit ctx tenant resources kv =
     (case get_tenant_quotas ctx resources tenant (fst kv) of
        Some effective_limit \<Rightarrow> 0 \<le> effective_limit \<and> effective_limit < snd kv
      | None \<Rightarrow> False)"

text \<open>The words of the specification: the expired delta of a resource kind is the sum
  of the deltas for that kind in the expired reservations of the tenant, and the
  headroom is the effective limit minus (usage minus expired delta). A requested kind
  is over its limit when the headroom is strictly less than the requested delta.\<close>

definition expired_rows :: "req_context \<Rightarrow> string \<Rightarrow> reservation list" where
  "expired_rows ctx tenant =
     filter (\<lambda>rv. resv_tenant_id rv = tenant \<and> resv_expiration rv < now ctx)
       (reservations (session ctx))"

definition expired_delta :: "req_context \<Rightarrow> string \<Rightarrow> string \<Rightarrow> int" where
  "expired_delta ctx tenant r =
     sum_list (map (\<lambda>rv. sum_list (map snd (filter (\<lambda>(k, d). k = r) (resv_deltas rv))))
       (expired_rows ctx tenant))"

definition headroom ::
  "req_context \<Rightarrow> string \<Rightarrow> (string \<rightharpoonup> resource_kind) \<Rightarrow> string \<Rightarrow> int option" where
  "headroom ctx tenant resources r =
     (case (get_tenant_quotas ctx resources tenant r, resources r) of
        (Some effective_limit, Some res) \<Rightarrow>
          Some (effective_limit - (count_usage res tenant - expired_delta ctx tenant r))
      | _ \<Rightarrow> None)"

definition over_limit ::
  "req_context \<Rightarrow> string \<Rightarrow> (string \<rightharpoonup> resource_kind) \<Rightarrow> (string \<times> int) list \<Rightarrow> string \<Rightarrow> bool" where
  "over_limit ctx tenant resources deltas r =
     (case (headroom ctx tenant resources r, map_of deltas r) of
        (Some h, Some requested_delta) \<Rightarrow> h < requested_delta
      | _ \<Rightarrow> False)"

subsection \<open>Example stores and registries\<close>

definition store0 :: store where
  "store0 = \<lparr>quotas = [], reservations = [], next_id = 0\<rparr>"

text \<open>An admin context on the empty store, and the context of tenant \<open>t2\<close>, without
  admin rights, on the same store.\<close>

definition ctx0 :: req_context where
  "ctx0 = \<lparr>session = store0, is_admin = True, is_advsvc = False, tenant_id = ''admin'',
            now = 100, horizon = 120, counted = []\<rparr>"

definition ctx_t2 :: req_context where
  "ctx_t2 = \<lparr>session = store0, is_admin = False, is_advsvc = False, tenant_id = ''t2'',
             now = 100, horizon = 120, counted = []\<rparr>"

text \<open>An admin context on a table with an override of \<open>ports\<close> for each of two
  tenants.\<close>

definition ctx_two :: req_context where
  "ctx_two =
     \<lparr>session =
        \<lparr>quotas = [\<lparr>quota_tenant_id = ''t2'', quota_resource = ''ports'', quota_limit = 9\<rparr>,
                    \<lparr>quota_tenant_id = ''t1'', quota_resource = ''ports'', quota_limit = 6\<rparr>],
         reservations = [], next_id = 0\<rparr>,
      is_admin = True, is_advsvc = False, tenant_id = ''admin'',
      now = 100, horizon = 120, counted = []\<rparr>"

definition ports :: resource_kind where
  "ports = \<lparr>default_limit = 5, count_usage = (\<lambda>tenant. 0)\<rparr>"

definition registry0 :: "string \<rightharpoonup> resource_kind" where
  "registry0 = [''ports'' \<mapsto> ports]"

text \<open>A resource kind with an unlimited default, and a registry that holds it.\<close>

definition unlimited_kind :: resource_kind where
  "unlimited_kind = \<lparr>default_limit = - 1, count_usage = (\<lambda>tenant. 0)\<rparr>"

definition registry1 :: "string \<rightharpoonup> resource_kind" where
  "registry1 = [''ports'' \<mapsto> ports, ''vips'' \<mapsto> unlimited_kind]"

subsection \<open>The passes of the reservation engine\<close>

text \<open>The dictionary \<^verbatim>\<open>current_usages\<close> when every counted resource is registered: the
  count of each resource, in the order of the calls.\<close>

definition usages_of ::
  "(string \<rightharpoonup> resource_kind) \<Rightarrow> string \<Rightarrow> string list \<Rightarrow> (string \<times> int) list" where
  "usages_of resources tenant rs =
     map (\<lambda>r. (r, case resources r of Some res \<Rightarrow> count_usage res tenant | None \<Rightarrow> 0)) rs"

text \<open>\<^verbatim>\<open>expired_deltas.get(resource, 0)\<close>.\<close>

definition expired_or_zero :: "(string \<rightharpoonup> int) \<Rightarrow> string \<Rightarrow> int" where
  "expired_or_zero expired_deltas r = (case expired_deltas r of None \<Rightarrow> 0 | Some d \<Rightarrow> d)"

text \<open>The guard \<^verbatim>\<open>if expired_reservations:\<close> holds for a requested resource kind in the
  loop: the summed delta of the expired reservations of the tenant is not zero for it.\<close>

definition reclaim_due ::
  "req_context \<Rightarrow> string \<Rightarrow> (string \<rightharpoonup> resource_kind) \<Rightarrow> (string \<times> int) list \<Rightarrow> bool" where
  "reclaim_due ctx tenant resources deltas =
     (\<exists>r\<in>set (requested_resources ctx tenant resources deltas). expired_delta ctx tenant r \<noteq> 0)"

text \<open>The reservation rows other than the expired ones of the tenant.\<close>

definition unexpired_rows :: "req_context \<Rightarrow> string \<Rightarrow> reservation list" where
  "unexpired_rows ctx tenant =
     filter (\<lambda>rv. \<not> (resv_tenant_id rv = tenant \<and> resv_expiration rv < now ctx))
       (reservations (session ctx))"

subsection \<open>Example requests\<close>

text \<open>A second limited resource kind, with 8 of its 10 units in use.\<close>

definition routers :: resource_kind where
  "routers = \<lparr>default_limit = 10, count_usage = (\<lambda>tenant. 8)\<rparr>"

definition registry2 :: "string \<rightharpoonup> resource_kind" where
  "registry2 = [''ports'' \<mapsto> ports, ''routers'' \<mapsto> routers, ''vips'' \<mapsto> unlimited_kind]"

text \<open>The resource kind \<open>R\<close> with limit 10, whose count reflects 4 committed units and
  one pending reservation of 3, and the context of its tenant with that reservation
  pending.\<close>

definition tracked :: resource_kind where
  "tracked = \<lparr>default_limit = 10, count_usage = (\<lambda>tenant. 4 + 3)\<rparr>"

definition registry_r :: "string \<rightharpoonup> resource_kind" where
  "registry_r = [''R'' \<mapsto> tracked]"

definition pending_row :: reservation where
  "pending_row = \<lparr>resv_id = 0, resv_tenant_id = ''t1'', resv_deltas = [(''R'', 3)],
                   resv_created = 90, resv_expiration = 210\<rparr>"

definition ctx_pending :: req_context where
  "ctx_pending =
     \<lparr>session = \<lparr>quotas = [], reservations = [pending_row], next_id = 1\<rparr>,
      is_admin = False, is_advsvc = False, tenant_id = ''t1'',
      now = 100, horizon = 120, counted = []\<rparr>"







section \<open>Properties\<close>

subsection \<open>The quota limit table\<close>

lemma overlay_append:
  "overlay m (xs @ [q]) = (overlay m xs)(quota_resource q \<mapsto> quota_limit q)"
  by (simp add: overlay_def)

lemma overlay_absent:
  "\<forall>q\<in>set rows. quota_resource q \<noteq> r \<Longrightarrow> overlay m rows r = m r"
  by (induction rows arbitrary: m) (auto simp: overlay_def)

lemma overlay_dom: "dom (overlay m rows) = dom m \<union> quota_resource ` set rows"
  by (induction rows arbitrary: m) (auto simp: overlay_def)

lemma overlay_single:
  "q \<in> set rows \<Longrightarrow>
   \<forall>q'\<in>set rows. quota_resource q' = quota_resource q \<longrightarrow> quota_limit q' = quota_limit q \<Longrightarrow>
   overlay m rows (quota_resource q) = Some (quota_limit q)"
proof (induction rows rule: rev_induct)
  case Nil
  then show ?case by simp
next
  case (snoc x xs)
  have step: "overlay m (xs @ [x]) (quota_resource q) =
      (if quota_resource x = quota_resource q then Some (quota_limit x)
       else overlay m xs (quota_resource q))"
    by (simp add: overlay_append)
  show ?case
  proof (cases "quota_resource x = quota_resource q")
    case True
    from snoc.prems(2) have "quota_resource x = quota_resource q \<longrightarrow> quota_limit x = quota_limit q"
      by simp
    with True step show ?thesis by simp
  next
    case False
    then have "q \<noteq> x" by auto
    with snoc.prems(1) have "q \<in> set xs" by simp
    moreover from snoc.prems(2) have
      "\<forall>q'\<in>set xs. quota_resource q' = quota_resource q \<longrightarrow> quota_limit q' = quota_limit q"
      by simp
    ultimately have "overlay m xs (quota_resource q) = Some (quota_limit q)"
      by (rule snoc.IH)
    with False step show ?thesis by simp
  qed
qed

lemma gtq_overlay:
  "get_tenant_quotas ctx resources tenant =
     overlay (\<lambda>key. map_option default_limit (resources key))
       (filter (\<lambda>item. quota_tenant_id item = tenant) (model_query ctx))"
  by (simp add: get_tenant_quotas_def overlay_def)

text \<open>The rows of a tenant that the scoped query returns: all of them for a context
  that passes the access check, none for any other.\<close>

lemma visible_rows:
  "filter (\<lambda>item. quota_tenant_id item = tenant) (model_query ctx) =
     (if reads_rows_of ctx tenant
      then filter (\<lambda>item. quota_tenant_id item = tenant) (quotas (session ctx)) else [])"
proof (cases "\<not> is_admin ctx \<and> \<not> is_advsvc ctx")
  case True
  then have mq: "model_query ctx =
      filter (\<lambda>q. quota_tenant_id q = tenant_id ctx) (quotas (session ctx))"
    by (simp add: model_query_def)
  show ?thesis
  proof (cases "tenant_id ctx = tenant")
    case same: True
    then have r: "reads_rows_of ctx tenant"
      by (simp add: reads_rows_of_def)
    have "filter (\<lambda>item. quota_tenant_id item = tenant)
            (filter (\<lambda>q. quota_tenant_id q = tenant) (quotas (session ctx))) =
          filter (\<lambda>item. quota_tenant_id item = tenant) (quotas (session ctx))"
      by simp
    with r same show ?thesis
      by (simp add: mq)
  next
    case other: False
    with True have r: "\<not> reads_rows_of ctx tenant"
      by (simp add: reads_rows_of_def)
    have "filter (\<lambda>item. quota_tenant_id item = tenant)
            (filter (\<lambda>q. quota_tenant_id q = tenant_id ctx) (quotas (session ctx))) = []"
      using other by (auto simp: filter_empty_conv)
    with r show ?thesis
      by (simp add: mq)
  qed
next
  case False
  then have "model_query ctx = quotas (session ctx)"
    by (auto simp: model_query_def)
  moreover from False have "reads_rows_of ctx tenant"
    by (auto simp: reads_rows_of_def)
  ultimately show ?thesis by simp
qed

lemma gtq_registered:
  "resources r = Some res \<Longrightarrow> \<exists>lim. get_tenant_quotas ctx resources tenant r = Some lim"
proof -
  assume "resources r = Some res"
  then have "r \<in> dom (\<lambda>key. map_option default_limit (resources key))"
    by (simp add: dom_def)
  then have "r \<in> dom (get_tenant_quotas ctx resources tenant)"
    by (simp add: gtq_overlay overlay_dom)
  then show ?thesis by (simp add: dom_def)
qed

lemma delete_quotas:
  "quotas (session (snd (delete_tenant_quota ctx t))) =
     filter (\<lambda>q. quota_tenant_id q \<noteq> t) (quotas (session ctx))"
  by (auto simp: delete_tenant_quota_def session_begin_def Let_def filter_empty_conv)

lemma delete_fails_iff:
  "(fst (delete_tenant_quota ctx t) = Inl (TenantQuotaNotFound t)) =
     (\<forall>q\<in>set (quotas (session ctx)). quota_tenant_id q \<noteq> t)"
  by (auto simp: delete_tenant_quota_def session_begin_def Let_def filter_empty_conv)

lemma delete_succeeds_iff:
  "(fst (delete_tenant_quota ctx t) = Inr ()) =
     (\<exists>q\<in>set (quotas (session ctx)). quota_tenant_id q = t)"
  by (auto simp: delete_tenant_quota_def session_begin_def Let_def filter_empty_conv)

lemma delete_fail_same:
  "fst (delete_tenant_quota ctx t) = Inl e \<Longrightarrow> snd (delete_tenant_quota ctx t) = ctx"
  by (auto simp: delete_tenant_quota_def session_begin_def Let_def filter_empty_conv
      split: if_splits)

lemma update_first_set:
  "find (\<lambda>q. quota_tenant_id q = t \<and> quota_resource q = r) rows = Some q0 \<Longrightarrow>
   distinct (map (\<lambda>q. (quota_tenant_id q, quota_resource q)) rows) \<Longrightarrow>
   q \<in> set (update_first t r l rows) \<Longrightarrow> quota_tenant_id q = t \<Longrightarrow> quota_resource q = r \<Longrightarrow>
   quota_limit q = l"
proof (induction rows)
  case Nil
  then show ?case by simp
next
  case (Cons x xs)
  show ?case
  proof (cases "quota_tenant_id x = t \<and> quota_resource x = r")
    case True
    with Cons.prems(3) have "q = x\<lparr>quota_limit := l\<rparr> \<or> q \<in> set xs"
      by simp
    then show ?thesis
    proof
      assume "q = x\<lparr>quota_limit := l\<rparr>"
      then show ?thesis by simp
    next
      assume "q \<in> set xs"
      then have "(quota_tenant_id q, quota_resource q) \<in>
                   (\<lambda>q. (quota_tenant_id q, quota_resource q)) ` set xs"
        by (rule imageI)
      moreover have "(quota_tenant_id x, quota_resource x) \<notin>
                   (\<lambda>q. (quota_tenant_id q, quota_resource q)) ` set xs"
        using Cons.prems(2) by simp
      ultimately show ?thesis
        using True Cons.prems(4,5) by simp
    qed
  next
    case False
    with Cons.prems(1) have f: "find (\<lambda>q. quota_tenant_id q = t \<and> quota_resource q = r) xs = Some q0"
      by simp
    from Cons.prems(2) have d: "distinct (map (\<lambda>q. (quota_tenant_id q, quota_resource q)) xs)"
      by simp
    have "update_first t r l (x # xs) = x # update_first t r l xs"
      using False by auto
    with Cons.prems(3) have "q = x \<or> q \<in> set (update_first t r l xs)"
      by simp
    then show ?thesis
    proof
      assume "q = x"
      with False Cons.prems(4,5) show ?thesis by simp
    next
      assume "q \<in> set (update_first t r l xs)"
      then show ?thesis
        using Cons.IH[OF f d] Cons.prems(4,5) by simp
    qed
  qed
qed

lemma update_first_mem:
  "find (\<lambda>q. quota_tenant_id q = t \<and> quota_resource q = r) rows = Some q0 \<Longrightarrow>
   \<exists>q\<in>set (update_first t r l rows).
      quota_tenant_id q = t \<and> quota_resource q = r \<and> quota_limit q = l"
  by (induction rows) (auto split: if_splits)

lemma update_first_keys:
  "map (\<lambda>q. (quota_tenant_id q, quota_resource q)) (update_first t r l rows) =
   map (\<lambda>q. (quota_tenant_id q, quota_resource q)) rows"
  by (induction rows) auto

text \<open>The upsert and the deletion keep the table well formed.\<close>

lemma update_keeps_one_limit_per_key:
  "one_limit_per_key (session ctx) \<Longrightarrow>
   one_limit_per_key (session (snd (update_quota_limit ctx tenant r l)))"
proof (cases "find (\<lambda>q. quota_tenant_id q = tenant \<and> quota_resource q = r)
                (quotas (session ctx))")
  case None
  assume wf: "one_limit_per_key (session ctx)"
  from None have absent:
    "\<forall>q\<in>set (quotas (session ctx)). \<not> (quota_tenant_id q = tenant \<and> quota_resource q = r)"
    by (simp add: find_None_iff)
  have "quotas (session (snd (update_quota_limit ctx tenant r l))) =
          quotas (session ctx) @
            [\<lparr>quota_tenant_id = tenant, quota_resource = r, quota_limit = l\<rparr>]"
    using None by (simp add: update_quota_limit_def session_begin_def)
  with wf absent show ?thesis
    by (auto simp: one_limit_per_key_def)
next
  case (Some q0)
  assume "one_limit_per_key (session ctx)"
  with Some show ?thesis
    by (simp add: one_limit_per_key_def update_quota_limit_def session_begin_def
        update_first_keys)
qed

lemma delete_keeps_one_limit_per_key:
  "one_limit_per_key (session ctx) \<Longrightarrow>
   one_limit_per_key (session (snd (delete_tenant_quota ctx tenant)))"
  by (simp add: one_limit_per_key_def delete_quotas distinct_map_filter)

lemma update_reads:
  "reads_rows_of (snd (update_quota_limit ctx tenant r l)) t = reads_rows_of ctx t"
  by (simp add: reads_rows_of_def update_quota_limit_def session_begin_def Let_def
      split: option.splits)

lemma update_rows:
  "quotas (session (snd (update_quota_limit ctx tenant r l))) =
     (case find (\<lambda>q. quota_tenant_id q = tenant \<and> quota_resource q = r)
             (quotas (session ctx)) of
        Some tenant_quota \<Rightarrow> update_first tenant r l (quotas (session ctx))
      | None \<Rightarrow> quotas (session ctx) @
          [\<lparr>quota_tenant_id = tenant, quota_resource = r, quota_limit = l\<rparr>])"
  by (simp add: update_quota_limit_def session_begin_def Let_def split: option.splits)

lemma update_reports:
  assumes "one_limit_per_key (session ctx)" and reads: "reads_rows_of ctx tenant"
  shows "get_tenant_quotas (snd (update_quota_limit ctx tenant r l)) resources tenant r = Some l"
proof (cases "find (\<lambda>q. quota_tenant_id q = tenant \<and> quota_resource q = r)
                (quotas (session ctx))")
  case None
  have "get_tenant_quotas (snd (update_quota_limit ctx tenant r l)) resources tenant =
          overlay (\<lambda>key. map_option default_limit (resources key))
            (filter (\<lambda>item. quota_tenant_id item = tenant) (quotas (session ctx)) @
               [\<lparr>quota_tenant_id = tenant, quota_resource = r, quota_limit = l\<rparr>])"
    using reads by (simp add: gtq_overlay visible_rows update_reads update_rows None)
  then show ?thesis
    by (simp add: overlay_append)
next
  case (Some q0)
  let ?rows = "update_first tenant r l (quotas (session ctx))"
  let ?trows = "filter (\<lambda>item. quota_tenant_id item = tenant) ?rows"
  have g: "get_tenant_quotas (snd (update_quota_limit ctx tenant r l)) resources tenant =
          overlay (\<lambda>key. map_option default_limit (resources key)) ?trows"
    using reads by (simp add: gtq_overlay visible_rows update_reads update_rows Some)
  from update_first_mem[OF Some, of l] obtain q where
    q: "q \<in> set ?rows" "quota_tenant_id q = tenant" "quota_resource q = r" "quota_limit q = l"
    by blast
  have d: "distinct (map (\<lambda>q. (quota_tenant_id q, quota_resource q)) (quotas (session ctx)))"
    using assms by (simp add: one_limit_per_key_def)
  have "overlay (\<lambda>key. map_option default_limit (resources key)) ?trows (quota_resource q) =
          Some (quota_limit q)"
  proof (rule overlay_single)
    show "q \<in> set ?trows" using q by simp
    show "\<forall>q'\<in>set ?trows. quota_resource q' = quota_resource q \<longrightarrow>
            quota_limit q' = quota_limit q"
      using update_first_set[OF Some d] q by auto
  qed
  with g q show ?thesis
    by simp
qed

lemma delete_reverts:
  "get_tenant_quotas (snd (delete_tenant_quota ctx tenant)) resources tenant =
     (\<lambda>key. map_option default_limit (resources key))"
proof -
  have "filter (\<lambda>item. quota_tenant_id item = tenant)
          (quotas (session (snd (delete_tenant_quota ctx tenant)))) = []"
    by (auto simp: delete_quotas filter_empty_conv)
  then have "filter (\<lambda>item. quota_tenant_id item = tenant)
          (model_query (snd (delete_tenant_quota ctx tenant))) = []"
    by (simp add: visible_rows)
  then show ?thesis
    by (simp add: gtq_overlay overlay_def)
qed

lemma no_override_default:
  assumes "\<forall>q\<in>set (quotas (session ctx)). quota_tenant_id q = tenant \<longrightarrow> quota_resource q \<noteq> r"
  shows "get_tenant_quotas ctx resources tenant r = map_option default_limit (resources r)"
proof -
  have "\<forall>q\<in>set (filter (\<lambda>item. quota_tenant_id item = tenant) (model_query ctx)).
          quota_resource q \<noteq> r"
    using assms by (simp add: visible_rows)
  then show ?thesis
    by (simp add: gtq_overlay overlay_absent)
qed

text \<open>
  Claim C8, amended. In a table with one limit per tenant and resource kind: a
  resource kind without an override row of the tenant has its registered default as
  the limit that \<^verbatim>\<open>get_tenant_quotas\<close> reports (and no limit when it is not
  registered); after \<^verbatim>\<open>update_quota_limit\<close> of the tenant and kind \<open>r\<close> to \<open>l\<close> the
  report for \<open>r\<close> is \<open>l\<close>, provided the context passes the access check of the rows of
  that tenant (it has admin or advanced-service rights, or is the tenant's own); after
  \<^verbatim>\<open>delete_tenant_quota\<close> of the tenant the report is the registered default for
  every resource kind.
\<close>

theorem limit_round_trip:
  assumes "one_limit_per_key (session ctx)"
  shows "((\<forall>q\<in>set (quotas (session ctx)). quota_tenant_id q = tenant \<longrightarrow> quota_resource q \<noteq> r) \<longrightarrow>
            get_tenant_quotas ctx resources tenant r = map_option default_limit (resources r))
       \<and> (is_admin ctx \<or> is_advsvc ctx \<or> tenant_id ctx = tenant \<longrightarrow>
            get_tenant_quotas (snd (update_quota_limit ctx tenant r l)) resources tenant r =
              Some l)
       \<and> get_tenant_quotas (snd (delete_tenant_quota ctx tenant)) resources tenant =
            (\<lambda>key. map_option default_limit (resources key))"
proof (intro conjI impI)
  assume "\<forall>q\<in>set (quotas (session ctx)). quota_tenant_id q = tenant \<longrightarrow> quota_resource q \<noteq> r"
  then show "get_tenant_quotas ctx resources tenant r = map_option default_limit (resources r)"
    by (rule no_override_default)
next
  assume "is_admin ctx \<or> is_advsvc ctx \<or> tenant_id ctx = tenant"
  then have "reads_rows_of ctx tenant"
    by (simp add: reads_rows_of_def)
  with assms show
    "get_tenant_quotas (snd (update_quota_limit ctx tenant r l)) resources tenant r = Some l"
    by (rule update_reports)
next
  show "get_tenant_quotas (snd (delete_tenant_quota ctx tenant)) resources tenant =
          (\<lambda>key. map_option default_limit (resources key))"
    by (rule delete_reverts)
qed

text \<open>The witness: an admin context on a table of two rows, where the update finds the
  row of the tenant behind the row of another tenant and changes it in place.\<close>

theorem limit_round_trip_witness:
  "one_limit_per_key (session ctx_two)
   \<and> is_admin ctx_two
   \<and> get_tenant_quotas ctx_two registry0 ''t3'' ''ports'' = Some 5
   \<and> quotas (session (snd (update_quota_limit ctx_two ''t1'' ''ports'' 8))) =
       [\<lparr>quota_tenant_id = ''t2'', quota_resource = ''ports'', quota_limit = 9\<rparr>,
        \<lparr>quota_tenant_id = ''t1'', quota_resource = ''ports'', quota_limit = 8\<rparr>]
   \<and> get_tenant_quotas (snd (update_quota_limit ctx_two ''t1'' ''ports'' 8))
        registry0 ''t1'' ''ports'' = Some 8
   \<and> get_tenant_quotas (snd (delete_tenant_quota ctx_two ''t1''))
        registry0 ''t1'' ''ports'' = Some 5"
proof -
  have h: "one_limit_per_key (session ctx_two)"
    by (simp add: one_limit_per_key_def ctx_two_def)
  have adm: "is_admin ctx_two"
    by (simp add: ctx_two_def)
  note rt = limit_round_trip[OF h, of _ "''ports''" registry0 8]
  have a: "get_tenant_quotas ctx_two registry0 ''t3'' ''ports'' = Some 5"
    using rt[of "''t3''"] by (simp add: ctx_two_def registry0_def ports_def)
  have rows: "quotas (session (snd (update_quota_limit ctx_two ''t1'' ''ports'' 8))) =
       [\<lparr>quota_tenant_id = ''t2'', quota_resource = ''ports'', quota_limit = 9\<rparr>,
        \<lparr>quota_tenant_id = ''t1'', quota_resource = ''ports'', quota_limit = 8\<rparr>]"
    by (simp add: update_rows ctx_two_def)
  have b: "get_tenant_quotas (snd (update_quota_limit ctx_two ''t1'' ''ports'' 8))
             registry0 ''t1'' ''ports'' = Some 8"
    using rt[of "''t1''"] adm by simp
  have c: "get_tenant_quotas (snd (delete_tenant_quota ctx_two ''t1''))
             registry0 ''t1'' ''ports'' = Some 5"
    using rt[of "''t1''"] by (simp add: registry0_def ports_def)
  from h adm a rows b c show ?thesis
    by (intro conjI)
qed

text \<open>
  Claim C8 as it is written fails for a context without admin rights that belongs to
  another tenant: the update stores the row, and the scoped query of
  \<^verbatim>\<open>get_tenant_quotas\<close> does not return it, so the report is still the default.
\<close>

theorem limit_round_trip_counterexample:
  "fst (update_quota_limit ctx_t2 ''t1'' ''ports'' 8) = Inr ()
   \<and> quotas (session (snd (update_quota_limit ctx_t2 ''t1'' ''ports'' 8))) =
       [\<lparr>quota_tenant_id = ''t1'', quota_resource = ''ports'', quota_limit = 8\<rparr>]
   \<and> get_tenant_quotas (snd (update_quota_limit ctx_t2 ''t1'' ''ports'' 8))
        registry0 ''t1'' ''ports'' = Some 5"
proof -
  have rows: "quotas (session (snd (update_quota_limit ctx_t2 ''t1'' ''ports'' 8))) =
       [\<lparr>quota_tenant_id = ''t1'', quota_resource = ''ports'', quota_limit = 8\<rparr>]"
    by (simp add: update_rows ctx_t2_def store0_def)
  have ok: "fst (update_quota_limit ctx_t2 ''t1'' ''ports'' 8) = Inr ()"
    by (simp add: update_quota_limit_def session_begin_def ctx_t2_def store0_def)
  have "\<not> reads_rows_of ctx_t2 ''t1''"
    by (simp add: reads_rows_of_def ctx_t2_def)
  then have "\<not> reads_rows_of (snd (update_quota_limit ctx_t2 ''t1'' ''ports'' 8)) ''t1''"
    by (simp only: update_reads not_False_eq_True)
  then have "get_tenant_quotas (snd (update_quota_limit ctx_t2 ''t1'' ''ports'' 8))
        registry0 ''t1'' = overlay (\<lambda>key. map_option default_limit (registry0 key)) []"
    by (simp add: gtq_overlay visible_rows)
  then have "get_tenant_quotas (snd (update_quota_limit ctx_t2 ''t1'' ''ports'' 8))
        registry0 ''t1'' ''ports'' = Some 5"
    by (simp add: overlay_def registry0_def ports_def)
  with ok rows show ?thesis
    by (intro conjI)
qed

text \<open>
  Claim C9. \<^verbatim>\<open>delete_tenant_quota\<close> leaves exactly the override rows of the other
  tenants; it fails with \<^verbatim>\<open>TenantQuotaNotFound\<close> if and only if the tenant had no
  override row, and succeeds if and only if it had one; when it fails the context,
  and so every row, is what it was.
\<close>

theorem delete_tenant_quota_spec:
  "quotas (session (snd (delete_tenant_quota ctx tenant))) =
      filter (\<lambda>q. quota_tenant_id q \<noteq> tenant) (quotas (session ctx))
   \<and> (fst (delete_tenant_quota ctx tenant) = Inl (TenantQuotaNotFound tenant)) =
       (\<forall>q\<in>set (quotas (session ctx)). quota_tenant_id q \<noteq> tenant)
   \<and> (fst (delete_tenant_quota ctx tenant) = Inr ()) =
       (\<exists>q\<in>set (quotas (session ctx)). quota_tenant_id q = tenant)
   \<and> (fst (delete_tenant_quota ctx tenant) = Inl (TenantQuotaNotFound tenant) \<longrightarrow>
       snd (delete_tenant_quota ctx tenant) = ctx)"
  using delete_quotas delete_fails_iff delete_succeeds_iff delete_fail_same by blast

theorem delete_tenant_quota_spec_witness:
  "fst (delete_tenant_quota ctx0 ''t1'') = Inl (TenantQuotaNotFound ''t1'')
   \<and> snd (delete_tenant_quota ctx0 ''t1'') = ctx0
   \<and> fst (delete_tenant_quota (snd (update_quota_limit ctx0 ''t1'' ''ports'' 8)) ''t1'') = Inr ()
   \<and> quotas (session (snd (delete_tenant_quota
        (snd (update_quota_limit ctx0 ''t1'' ''ports'' 8)) ''t1''))) = []"
proof -
  have "fst (delete_tenant_quota ctx0 ''t1'') = Inl (TenantQuotaNotFound ''t1'')
        \<and> snd (delete_tenant_quota ctx0 ''t1'') = ctx0"
    using delete_tenant_quota_spec[of ctx0 "''t1''"] by (simp add: ctx0_def store0_def)
  moreover have
    "fst (delete_tenant_quota (snd (update_quota_limit ctx0 ''t1'' ''ports'' 8)) ''t1'') = Inr ()
     \<and> quotas (session (snd (delete_tenant_quota
          (snd (update_quota_limit ctx0 ''t1'' ''ports'' 8)) ''t1''))) = []"
    using delete_tenant_quota_spec[of "snd (update_quota_limit ctx0 ''t1'' ''ports'' 8)" "''t1''"]
    by (simp add: ctx0_def store0_def update_quota_limit_def session_begin_def)
  ultimately show ?thesis by simp
qed

text \<open>
  Claim C10, amended. The keys of the dictionary that \<^verbatim>\<open>get_tenant_quotas\<close> returns
  are the keys of the registry together with the resource kind of every override row of
  the tenant, registered or not, when the context passes the access check of the rows of
  that tenant; for any other context they are the keys of the registry. With an
  override, read by the context, for a resource kind that the registry does not hold,
  the keys are a strict superset of the registry's.
\<close>

theorem tenant_quotas_keys:
  "dom (get_tenant_quotas ctx resources tenant) =
     dom resources \<union>
     quota_resource ` {q \<in> set (quotas (session ctx)). quota_tenant_id q = tenant \<and>
                          (is_admin ctx \<or> is_advsvc ctx \<or> tenant_id ctx = tenant)}"
proof -
  have d: "dom (\<lambda>key. map_option default_limit (resources key)) = dom resources"
    by (auto simp: dom_def)
  show ?thesis
  proof (cases "reads_rows_of ctx tenant")
    case True
    then have "is_admin ctx \<or> is_advsvc ctx \<or> tenant_id ctx = tenant"
      by (simp add: reads_rows_of_def)
    then have "{q \<in> set (quotas (session ctx)). quota_tenant_id q = tenant \<and>
                  (is_admin ctx \<or> is_advsvc ctx \<or> tenant_id ctx = tenant)} =
               set (filter (\<lambda>item. quota_tenant_id item = tenant) (quotas (session ctx)))"
      by auto
    with True show ?thesis
      by (simp only: gtq_overlay overlay_dom visible_rows d if_True)
  next
    case False
    then have "\<not> (is_admin ctx \<or> is_advsvc ctx \<or> tenant_id ctx = tenant)"
      by (simp add: reads_rows_of_def)
    then have e: "{q \<in> set (quotas (session ctx)). quota_tenant_id q = tenant \<and>
                  (is_admin ctx \<or> is_advsvc ctx \<or> tenant_id ctx = tenant)} = {}"
      by auto
    have lhs: "dom (get_tenant_quotas ctx resources tenant) = dom resources"
      using False by (simp add: gtq_overlay overlay_dom visible_rows d)
    show ?thesis
      by (simp only: lhs e image_empty Un_empty_right)
  qed
qed

theorem tenant_quotas_keys_witness:
  "dom registry0 \<subset>
     dom (get_tenant_quotas (snd (update_quota_limit ctx0 ''t1'' ''routers'' 3)) registry0 ''t1'')
   \<and> ''routers'' \<in>
     dom (get_tenant_quotas (snd (update_quota_limit ctx0 ''t1'' ''routers'' 3)) registry0 ''t1'')
   \<and> ''routers'' \<notin> dom registry0"
proof -
  let ?ctx = "snd (update_quota_limit ctx0 ''t1'' ''routers'' 3)"
  let ?row = "\<lparr>quota_tenant_id = ''t1'', quota_resource = ''routers'', quota_limit = 3\<rparr>"
  let ?S = "{q \<in> set (quotas (session ?ctx)). quota_tenant_id q = ''t1'' \<and>
              (is_admin ?ctx \<or> is_advsvc ?ctx \<or> tenant_id ?ctx = ''t1'')}"
  have rows: "quotas (session ?ctx) = [?row]"
    by (simp add: update_rows ctx0_def store0_def)
  have adm: "is_admin ?ctx"
    by (simp add: ctx0_def update_quota_limit_def session_begin_def store0_def)
  have "?row \<in> ?S"
    by (simp add: rows adm)
  then have "quota_resource ?row \<in> quota_resource ` ?S"
    by (rule imageI)
  then have "quota_resource ?row \<in> dom registry0 \<union> quota_resource ` ?S"
    by (rule UnI2)
  then have "quota_resource ?row \<in> dom (get_tenant_quotas ?ctx registry0 ''t1'')"
    by (simp only: tenant_quotas_keys [of ?ctx registry0 "''t1''"])
  then have inside: "''routers'' \<in> dom (get_tenant_quotas ?ctx registry0 ''t1'')"
    by simp
  have outside: "''routers'' \<notin> dom registry0"
    by (simp add: registry0_def)
  have "dom registry0 \<subseteq> dom registry0 \<union> quota_resource ` ?S"
    by (rule Un_upper1)
  then have sub: "dom registry0 \<subseteq> dom (get_tenant_quotas ?ctx registry0 ''t1'')"
    by (simp only: tenant_quotas_keys [of ?ctx registry0 "''t1''"])
  from inside outside have "dom registry0 \<noteq> dom (get_tenant_quotas ?ctx registry0 ''t1'')"
    by blast
  with sub have "dom registry0 \<subset> dom (get_tenant_quotas ?ctx registry0 ''t1'')"
    by (rule psubsetI)
  with inside outside show ?thesis
    by (intro conjI)
qed

text \<open>
  Claim C10 as it is written fails for a context without admin rights that belongs to
  another tenant: the override row of the tenant is stored and its resource kind is not
  a key of the dictionary.
\<close>

theorem tenant_quotas_keys_counterexample:
  "\<lparr>quota_tenant_id = ''t1'', quota_resource = ''routers'', quota_limit = 3\<rparr>
     \<in> set (quotas (session (snd (update_quota_limit ctx_t2 ''t1'' ''routers'' 3))))
   \<and> get_tenant_quotas (snd (update_quota_limit ctx_t2 ''t1'' ''routers'' 3))
        registry0 ''t1'' ''routers'' = None"
proof -
  have rows: "quotas (session (snd (update_quota_limit ctx_t2 ''t1'' ''routers'' 3))) =
       [\<lparr>quota_tenant_id = ''t1'', quota_resource = ''routers'', quota_limit = 3\<rparr>]"
    by (simp add: update_rows ctx_t2_def store0_def)
  have "\<not> reads_rows_of ctx_t2 ''t1''"
    by (simp add: reads_rows_of_def ctx_t2_def)
  then have "\<not> reads_rows_of (snd (update_quota_limit ctx_t2 ''t1'' ''routers'' 3)) ''t1''"
    by (simp only: update_reads not_False_eq_True)
  then have "get_tenant_quotas (snd (update_quota_limit ctx_t2 ''t1'' ''routers'' 3))
        registry0 ''t1'' = overlay (\<lambda>key. map_option default_limit (registry0 key)) []"
    by (simp add: gtq_overlay visible_rows)
  then have "get_tenant_quotas (snd (update_quota_limit ctx_t2 ''t1'' ''routers'' 3))
        registry0 ''t1'' ''routers'' = None"
    by (simp add: overlay_def registry0_def)
  with rows show ?thesis
    by simp
qed

subsection \<open>The limit checker\<close>

lemma over_keys_defined:
  "\<forall>kv\<in>set vals. limits (fst kv) \<noteq> None \<Longrightarrow>
   over_keys limits vals =
     Inr (map fst (filter (\<lambda>kv. case limits (fst kv) of
                                  Some lim \<Rightarrow> 0 \<le> lim \<and> lim < snd kv
                                | None \<Rightarrow> False) vals))"
proof (induction vals)
  case Nil
  then show ?case by simp
next
  case (Cons kv vals)
  obtain k v where kv: "kv = (k, v)"
    by (cases kv)
  from Cons.prems kv obtain lim where lim: "limits k = Some lim"
    by auto
  from Cons.prems have "\<forall>kv\<in>set vals. limits (fst kv) \<noteq> None"
    by simp
  from Cons.IH[OF this] show ?case
    by (simp add: kv lim)
qed

lemma limit_check_ctx: "snd (limit_check ctx tenant resources vals) = ctx"
  by (simp add: limit_check_def Let_def split: sum.splits)

lemma limit_check_negative:
  assumes "\<exists>(key, val)\<in>set vals. val < 0"
  shows "fst (limit_check ctx tenant resources vals) =
           Inl (InvalidQuotaValue (sort (map fst (filter (\<lambda>(key, val). val < 0) vals))))"
proof -
  from assms have "filter (\<lambda>(key, val). val < 0) vals \<noteq> []"
    by (auto simp: filter_empty_conv)
  then show ?thesis
    by (simp add: limit_check_def Let_def)
qed

lemma limit_check_checked:
  assumes nonneg: "\<forall>(key, val)\<in>set vals. 0 \<le> val"
    and known: "\<forall>kv\<in>set vals. get_tenant_quotas ctx resources tenant (fst kv) \<noteq> None"
  shows "fst (limit_check ctx tenant resources vals) =
           (if filter (exceeds_limit ctx tenant resources) vals \<noteq> []
            then Inl (OverQuota (sort (map fst (filter (exceeds_limit ctx tenant resources) vals))))
            else Inr ())"
proof -
  from nonneg have u: "filter (\<lambda>(key, val). val < 0) vals = []"
    by (auto simp: filter_empty_conv)
  have e: "(\<lambda>kv. case get_tenant_quotas ctx resources tenant (fst kv) of
                    Some lim \<Rightarrow> 0 \<le> lim \<and> lim < snd kv | None \<Rightarrow> False) =
           exceeds_limit ctx tenant resources"
    by (rule ext) (simp add: exceeds_limit_def)
  have o: "over_keys (get_quotas ctx tenant resources) vals =
             Inr (map fst (filter (exceeds_limit ctx tenant resources) vals))"
    using over_keys_defined[of vals "get_tenant_quotas ctx resources tenant"] known
    by (simp add: get_quotas_def e)
  show ?thesis
    by (simp add: limit_check_def Let_def u o)
qed

lemma gtq_ctx0: "get_tenant_quotas ctx0 resources tenant =
    (\<lambda>key. map_option default_limit (resources key))"
  by (simp add: get_tenant_quotas_def model_query_def ctx0_def store0_def)

lemma limits1:
  "get_tenant_quotas ctx0 registry1 ''t1'' ''ports'' = Some 5"
  "get_tenant_quotas ctx0 registry1 ''t1'' ''vips'' = Some (- 1)"
  by (simp_all add: gtq_ctx0 registry1_def ports_def unlimited_kind_def)

text \<open>
  Claim C5, amended. \<^verbatim>\<open>limit_check\<close> leaves the context, and so all state, unchanged.
  If any value is negative it fails with \<^verbatim>\<open>InvalidQuotaValue\<close> listing the sorted keys
  of the negative values, whatever the limits are (unlimited ones too). Otherwise, when
  every key of the values has an effective limit (it is registered, or has an override
  that the context reads), it fails with \<^verbatim>\<open>OverQuota\<close> listing the sorted keys whose
  value strictly exceeds a non-negative effective limit when there is such a key, and
  succeeds when there is none.
\<close>

theorem limit_check_spec:
  "snd (limit_check ctx tenant resources vals) = ctx
   \<and> ((\<exists>(key, val)\<in>set vals. val < 0) \<longrightarrow>
        fst (limit_check ctx tenant resources vals) =
          Inl (InvalidQuotaValue (sort (map fst (filter (\<lambda>(key, val). val < 0) vals)))))
   \<and> ((\<forall>(key, val)\<in>set vals. 0 \<le> val) \<and>
       (\<forall>kv\<in>set vals. get_tenant_quotas ctx resources tenant (fst kv) \<noteq> None) \<longrightarrow>
        fst (limit_check ctx tenant resources vals) =
          (if filter (exceeds_limit ctx tenant resources) vals \<noteq> []
           then Inl (OverQuota
                  (sort (map fst (filter (exceeds_limit ctx tenant resources) vals))))
           else Inr ()))"
proof (intro conjI impI)
  show "snd (limit_check ctx tenant resources vals) = ctx"
    by (rule limit_check_ctx)
next
  assume "\<exists>(key, val)\<in>set vals. val < 0"
  then show "fst (limit_check ctx tenant resources vals) =
          Inl (InvalidQuotaValue (sort (map fst (filter (\<lambda>(key, val). val < 0) vals))))"
    by (rule limit_check_negative)
next
  assume a: "(\<forall>(key, val)\<in>set vals. 0 \<le> val) \<and>
       (\<forall>kv\<in>set vals. get_tenant_quotas ctx resources tenant (fst kv) \<noteq> None)"
  from a have n: "\<forall>(key, val)\<in>set vals. 0 \<le> val" by (rule conjunct1)
  from a have k: "\<forall>kv\<in>set vals. get_tenant_quotas ctx resources tenant (fst kv) \<noteq> None"
    by (rule conjunct2)
  from n k show "fst (limit_check ctx tenant resources vals) =
          (if filter (exceeds_limit ctx tenant resources) vals \<noteq> []
           then Inl (OverQuota
                  (sort (map fst (filter (exceeds_limit ctx tenant resources) vals))))
           else Inr ())"
    by (rule limit_check_checked)
qed

theorem limit_check_spec_witness:
  "fst (limit_check ctx0 ''t1'' registry1 [(''vips'', - 1), (''ports'', - 2)]) =
     Inl (InvalidQuotaValue [''ports'', ''vips''])
   \<and> fst (limit_check ctx0 ''t1'' registry1 [(''vips'', 100), (''ports'', 100)]) =
     Inl (OverQuota [''ports''])
   \<and> fst (limit_check ctx0 ''t1'' registry1 [(''vips'', 100), (''ports'', 5)]) = Inr ()
   \<and> snd (limit_check ctx0 ''t1'' registry1 [(''vips'', 100), (''ports'', 5)]) = ctx0"
proof -
  have a: "fst (limit_check ctx0 ''t1'' registry1 [(''vips'', - 1), (''ports'', - 2)]) =
     Inl (InvalidQuotaValue [''ports'', ''vips''])"
    using limit_check_spec[of ctx0 "''t1''" registry1 "[(''vips'', - 1), (''ports'', - 2)]"]
    by simp
  have b: "fst (limit_check ctx0 ''t1'' registry1 [(''vips'', 100), (''ports'', 100)]) =
     Inl (OverQuota [''ports''])"
    using limit_check_spec[of ctx0 "''t1''" registry1 "[(''vips'', 100), (''ports'', 100)]"]
    by (simp add: limits1 exceeds_limit_def)
  have c: "fst (limit_check ctx0 ''t1'' registry1 [(''vips'', 100), (''ports'', 5)]) = Inr ()
     \<and> snd (limit_check ctx0 ''t1'' registry1 [(''vips'', 100), (''ports'', 5)]) = ctx0"
    using limit_check_spec[of ctx0 "''t1''" registry1 "[(''vips'', 100), (''ports'', 5)]"]
    by (simp add: limits1 exceeds_limit_def)
  from a b c show ?thesis
    by (intro conjI) simp_all
qed


text \<open>
  Claim C5 as it is written fails at a key without an effective limit: no value is
  negative and none exceeds a limit, and the call does not succeed; the subscript
  \<^verbatim>\<open>quotas[key]\<close> raises \<^verbatim>\<open>KeyError\<close>.
\<close>

theorem limit_check_counterexample:
  "get_tenant_quotas ctx0 registry0 ''t1'' ''routers'' = None
   \<and> fst (limit_check ctx0 ''t1'' registry0 [(''routers'', 1)]) = Inl (KeyError ''routers'')"
proof -
  have n: "get_tenant_quotas ctx0 registry0 ''t1'' ''routers'' = None"
    by (simp add: gtq_ctx0 registry0_def)
  then have "over_keys (get_quotas ctx0 ''t1'' registry0) [(''routers'', 1)] =
               Inl (KeyError ''routers'')"
    by (simp add: get_quotas_def)
  then have "fst (limit_check ctx0 ''t1'' registry0 [(''routers'', 1)]) =
               Inl (KeyError ''routers'')"
    by (simp add: limit_check_def Let_def)
  with n show ?thesis
    by (intro conjI)
qed

subsection \<open>The reservation engine\<close>

lemma gtq_counted [simp]:
  "get_tenant_quotas (ctx\<lparr>counted := c\<rparr>) resources tenant = get_tenant_quotas ctx resources tenant"
  by (simp add: get_tenant_quotas_def model_query_def)

subsubsection \<open>Counting\<close>

lemma count_resources_covered:
  "\<forall>r\<in>set rs. r \<in> dom resources \<Longrightarrow>
   count_resources resources tenant rs ctx =
     (Inr (usages_of resources tenant rs),
      ctx\<lparr>counted := counted ctx @ map (\<lambda>r. (r, tenant)) rs\<rparr>)"
proof (induction rs arbitrary: ctx)
  case Nil
  then show ?case by (simp add: usages_of_def)
next
  case (Cons r rs)
  from Cons.prems obtain res where res: "resources r = Some res"
    by auto
  from Cons.prems have cov: "\<forall>r\<in>set rs. r \<in> dom resources"
    by simp
  show ?case
    by (simp add: res Cons.IH[OF cov] usages_of_def)
qed

lemma count_resources_stops:
  "\<not> (\<forall>r\<in>set rs. r \<in> dom resources) \<Longrightarrow>
   count_resources resources tenant rs ctx =
     (Inl (KeyError (hd (filter (\<lambda>r. r \<notin> dom resources) rs))),
      ctx\<lparr>counted := counted ctx @
        map (\<lambda>r. (r, tenant)) (takeWhile (\<lambda>r. r \<in> dom resources) rs)\<rparr>)"
proof (induction rs arbitrary: ctx)
  case Nil
  then show ?case by simp
next
  case (Cons r rs)
  show ?case
  proof (cases "resources r")
    case None
    then have "r \<notin> dom resources"
      by (simp add: dom_def)
    then show ?thesis
      by (simp add: None)
  next
    case (Some res)
    then have in_dom: "r \<in> dom resources"
      by (simp add: dom_def)
    with Cons.prems have "\<not> (\<forall>r\<in>set rs. r \<in> dom resources)"
      by simp
    note ih = Cons.IH[OF this, of "ctx\<lparr>counted := counted ctx @ [(r, tenant)]\<rparr>"]
    show ?thesis
      by (simp add: Some in_dom ih)
  qed
qed

lemma count_resources_uncovered:
  assumes "\<not> (\<forall>r\<in>set rs. r \<in> dom resources)"
  shows "\<exists>k calls. count_resources resources tenant rs ctx =
       (Inl (KeyError k), ctx\<lparr>counted := counted ctx @ calls\<rparr>) \<and> fst ` set calls \<subseteq> set rs"
proof (intro exI conjI)
  show "count_resources resources tenant rs ctx =
     (Inl (KeyError (hd (filter (\<lambda>r. r \<notin> dom resources) rs))),
      ctx\<lparr>counted := counted ctx @
        map (\<lambda>r. (r, tenant)) (takeWhile (\<lambda>r. r \<in> dom resources) rs)\<rparr>)"
    by (rule count_resources_stops[OF assms])
  have "fst ` set (map (\<lambda>r. (r, tenant)) (takeWhile (\<lambda>r. r \<in> dom resources) rs)) =
          set (takeWhile (\<lambda>r. r \<in> dom resources) rs)"
    by (simp add: image_image)
  also have "\<dots> \<subseteq> set rs"
  proof
    fix x assume "x \<in> set (takeWhile (\<lambda>r. r \<in> dom resources) rs)"
    then show "x \<in> set rs"
      by (rule set_takeWhileD[THEN conjunct1])
  qed
  finally show "fst ` set (map (\<lambda>r. (r, tenant)) (takeWhile (\<lambda>r. r \<in> dom resources) rs))
                  \<subseteq> set rs" .
qed

lemma map_of_usages:
  "r \<in> set rs \<Longrightarrow> resources r = Some res \<Longrightarrow>
   map_of (usages_of resources tenant rs) r = Some (count_usage res tenant)"
  by (induction rs) (auto simp: usages_of_def)

subsubsection \<open>Reclamation\<close>

lemma handle_expired_idem:
  "handle_expired_reservations (handle_expired_reservations ctx tenant) tenant =
     handle_expired_reservations ctx tenant"
  by (simp add: handle_expired_reservations_def remove_expired_reservations_def)

lemma handle_expired_fields:
  "quotas (session (handle_expired_reservations ctx tenant)) = quotas (session ctx)"
  "next_id (session (handle_expired_reservations ctx tenant)) = next_id (session ctx)"
  "now (handle_expired_reservations ctx tenant) = now ctx"
  "horizon (handle_expired_reservations ctx tenant) = horizon ctx"
  "counted (handle_expired_reservations ctx tenant) = counted ctx"
  "reservations (session (handle_expired_reservations ctx tenant)) =
     filter (\<lambda>rv. \<not> (resv_tenant_id rv = tenant \<and> resv_expiration rv < now ctx))
       (reservations (session ctx))"
  by (simp_all add: handle_expired_reservations_def remove_expired_reservations_def)

subsubsection \<open>The loop\<close>

lemma check_headroom_defined:
  "\<forall>r\<in>set rs. \<exists>u l d. usages r = Some u \<and> limits r = Some l \<and> deltas r = Some d \<Longrightarrow>
   check_headroom limits usages expired deltas tenant rs over ctx =
     (Inr (over @ filter (\<lambda>r. the (limits r) - (the (usages r) - expired_or_zero expired r)
                              < the (deltas r)) rs),
      if \<exists>r\<in>set rs. expired_or_zero expired r \<noteq> 0
      then handle_expired_reservations ctx tenant else ctx)"
proof (induction rs arbitrary: over ctx)
  case Nil
  then show ?case by simp
next
  case (Cons r rs)
  from Cons.prems obtain u l d where
    v: "usages r = Some u" "limits r = Some l" "deltas r = Some d"
    by auto
  from Cons.prems have
    rest: "\<forall>r\<in>set rs. \<exists>u l d. usages r = Some u \<and> limits r = Some l \<and> deltas r = Some d"
    by simp
  note ih = Cons.IH[OF rest]
  show ?case
  proof (cases "expired_or_zero expired r = 0")
    case True
    then have z: "(case expired r of None \<Rightarrow> 0 | Some d \<Rightarrow> d) = 0"
      by (simp add: expired_or_zero_def)
    show ?thesis
      by (simp add: v z ih True Let_def)
  next
    case False
    then have z: "(case expired r of None \<Rightarrow> 0 | Some d \<Rightarrow> d) \<noteq> 0"
      by (simp add: expired_or_zero_def)
    have e: "(case expired r of None \<Rightarrow> 0 | Some d \<Rightarrow> d) = expired_or_zero expired r"
      by (simp add: expired_or_zero_def)
    show ?thesis
      using False by (simp add: v ih handle_expired_idem e Let_def)
  qed
qed

subsubsection \<open>Expired deltas\<close>

lemma sum_list_concat_map: "sum_list (concat xss) = sum_list (map sum_list xss)"
  by (induction xss) simp_all

lemma expired_or_zero_query:
  assumes r: "r \<in> set rs"
  shows "expired_or_zero (get_reservations_for_resources ctx tenant rs True) r =
           expired_delta ctx tenant r"
proof -
  define amounts where "amounts =
    concat (map (\<lambda>rv. map snd (filter (\<lambda>(k, d). k = r) (resv_deltas rv)))
      (filter (\<lambda>rv. resv_tenant_id rv = tenant \<and> (resv_expiration rv < now ctx) = True)
         (reservations (session ctx))))"
  have q: "get_reservations_for_resources ctx tenant rs True r =
             (if r \<in> set rs \<and> amounts \<noteq> [] then Some (sum_list amounts) else None)"
    unfolding get_reservations_for_resources_def Let_def amounts_def ..
  have "expired_or_zero (get_reservations_for_resources ctx tenant rs True) r =
          (if amounts \<noteq> [] then sum_list amounts else 0)"
    using r by (simp add: expired_or_zero_def q)
  also have "\<dots> = sum_list amounts"
    by (cases "amounts = []") simp_all
  also have "\<dots> = expired_delta ctx tenant r"
    unfolding amounts_def
    by (simp add: expired_delta_def expired_rows_def sum_list_concat_map comp_def)
  finally show ?thesis .
qed

lemma expired_delta_counted [simp]:
  "expired_delta (ctx\<lparr>counted := c\<rparr>) tenant r = expired_delta ctx tenant r"
  by (simp add: expired_delta_def expired_rows_def)

lemma query_counted [simp]:
  "get_reservations_for_resources (ctx\<lparr>counted := c\<rparr>) tenant rs e =
     get_reservations_for_resources ctx tenant rs e"
  by (simp add: get_reservations_for_resources_def)

subsubsection \<open>The transaction body\<close>

lemma requested_in_deltas:
  "r \<in> set (requested_resources ctx tenant resources deltas) \<Longrightarrow> r \<in> fst ` set deltas"
  by (simp add: requested_resources_def)

lemma requested_not_unlimited:
  "get_tenant_quotas ctx resources tenant r = Some lim \<Longrightarrow> lim < 0 \<Longrightarrow>
   r \<notin> set (requested_resources ctx tenant resources deltas)"
  by (simp add: requested_resources_def)

lemma over_limit_covered:
  "resources r = Some res \<Longrightarrow> get_tenant_quotas ctx resources tenant r = Some lim \<Longrightarrow>
   map_of deltas r = Some d \<Longrightarrow>
   headroom ctx tenant resources r =
     Some (lim - (count_usage res tenant - expired_delta ctx tenant r)) \<and>
   over_limit ctx tenant resources deltas r =
     (lim - (count_usage res tenant - expired_delta ctx tenant r) < d)"
  by (simp add: over_limit_def headroom_def)

lemma requested_defined:
  assumes cov: "\<forall>r\<in>set (requested_resources ctx tenant resources deltas). r \<in> dom resources"
    and r: "r \<in> set (requested_resources ctx tenant resources deltas)"
  shows "\<exists>res lim d. resources r = Some res \<and>
           get_tenant_quotas ctx resources tenant r = Some lim \<and> map_of deltas r = Some d"
proof -
  from cov r have "r \<in> dom resources" by (rule bspec)
  then obtain res where res: "resources r = Some res"
    by (auto simp: dom_def)
  have "\<exists>lim. get_tenant_quotas ctx resources tenant r = Some lim"
    using res by (rule gtq_registered)
  then obtain lim where lim: "get_tenant_quotas ctx resources tenant r = Some lim"
    by (elim exE)
  from requested_in_deltas[OF r] have "map_of deltas r \<noteq> None"
    by (simp add: map_of_eq_None_iff)
  then obtain d where d: "map_of deltas r = Some d"
    by (cases "map_of deltas r") simp_all
  show ?thesis
    by (intro exI conjI) (rule res, rule lim, rule d)
qed

lemma create_reservation_eq:
  "(case create_reservation c tenant deltas of (rid, c') \<Rightarrow> (Inr rid, c')) =
     (Inr (next_id (session c)), snd (create_reservation c tenant deltas))"
  by (simp add: create_reservation_def)

lemma body_covered:
  assumes cov: "\<forall>r\<in>set (requested_resources ctx tenant resources deltas). r \<in> dom resources"
  shows "make_reservation_body tenant resources deltas ctx =
    (if filter (over_limit ctx tenant resources deltas)
          (requested_resources ctx tenant resources deltas) \<noteq> []
     then (Inl (OverQuota (sort (filter (over_limit ctx tenant resources deltas)
              (requested_resources ctx tenant resources deltas)))),
           if \<exists>r\<in>set (requested_resources ctx tenant resources deltas).
                 expired_delta ctx tenant r \<noteq> 0
           then handle_expired_reservations
                  (ctx\<lparr>counted := counted ctx @ map (\<lambda>r. (r, tenant))
                     (requested_resources ctx tenant resources deltas)\<rparr>) tenant
           else ctx\<lparr>counted := counted ctx @ map (\<lambda>r. (r, tenant))
                     (requested_resources ctx tenant resources deltas)\<rparr>)
     else (Inr (next_id (session ctx)),
           snd (create_reservation
             (if \<exists>r\<in>set (requested_resources ctx tenant resources deltas).
                 expired_delta ctx tenant r \<noteq> 0
              then handle_expired_reservations
                  (ctx\<lparr>counted := counted ctx @ map (\<lambda>r. (r, tenant))
                     (requested_resources ctx tenant resources deltas)\<rparr>) tenant
              else ctx\<lparr>counted := counted ctx @ map (\<lambda>r. (r, tenant))
                     (requested_resources ctx tenant resources deltas)\<rparr>) tenant deltas)))"
proof -
  define req where "req = requested_resources ctx tenant resources deltas"
  define ctx1 where "ctx1 = ctx\<lparr>counted := counted ctx @ map (\<lambda>r. (r, tenant)) req\<rparr>"
  define lims where "lims = get_tenant_quotas ctx resources tenant"
  define us where "us = map_of (usages_of resources tenant req)"
  define ex where "ex = get_reservations_for_resources ctx1 tenant req True"
  define Q where "Q = (\<lambda>r. the (lims r) - (the (us r) - expired_or_zero ex r) < the (map_of deltas r))"
  define ctx2 where "ctx2 = (if \<exists>r\<in>set req. expired_delta ctx tenant r \<noteq> 0
               then handle_expired_reservations ctx1 tenant else ctx1)"
  define over where "over = filter (over_limit ctx tenant resources deltas) req"
  have cov': "\<forall>r\<in>set req. r \<in> dom resources"
    using cov by (simp add: req_def)
  have c: "count_resources resources tenant req ctx = (Inr (usages_of resources tenant req), ctx1)"
    unfolding ctx1_def by (rule count_resources_covered[OF cov'])
  have vals: "\<exists>res lim d. resources r = Some res \<and> lims r = Some lim \<and> map_of deltas r = Some d"
    if "r \<in> set req" for r
    using requested_defined[OF cov, of r] that by (simp add: req_def lims_def)
  have defd: "\<forall>r\<in>set req. \<exists>u l d. us r = Some u \<and> lims r = Some l \<and> map_of deltas r = Some d"
  proof
    fix r assume r: "r \<in> set req"
    from vals[OF r] obtain res lim d where
      v: "resources r = Some res" "lims r = Some lim" "map_of deltas r = Some d"
      by (elim exE conjE)
    have "us r = Some (count_usage res tenant)"
      unfolding us_def using r v(1) by (rule map_of_usages)
    with v show "\<exists>u l d. us r = Some u \<and> lims r = Some l \<and> map_of deltas r = Some d"
      by simp
  qed
  have exq: "expired_or_zero ex r = expired_delta ctx tenant r" if "r \<in> set req" for r
    using that by (simp add: ex_def ctx1_def expired_or_zero_query)
  have trig: "(\<exists>r\<in>set req. expired_or_zero ex r \<noteq> 0) =
              (\<exists>r\<in>set req. expired_delta ctx tenant r \<noteq> 0)"
    using exq by simp
  have Qo: "filter Q req = over"
    unfolding over_def
  proof (rule filter_cong[OF refl])
    fix r assume r: "r \<in> set req"
    from vals[OF r] obtain res lim d where
      v: "resources r = Some res" "lims r = Some lim" "map_of deltas r = Some d"
      by (elim exE conjE)
    have u: "us r = Some (count_usage res tenant)"
      unfolding us_def using r v(1) by (rule map_of_usages)
    have "Q r = (lim - (count_usage res tenant - expired_delta ctx tenant r) < d)"
      by (simp add: Q_def v u exq[OF r])
    moreover have "over_limit ctx tenant resources deltas r =
        (lim - (count_usage res tenant - expired_delta ctx tenant r) < d)"
      using v by (simp add: lims_def over_limit_def headroom_def)
    ultimately show "Q r = over_limit ctx tenant resources deltas r"
      by simp
  qed
  have "check_headroom lims us ex (map_of deltas) tenant req [] ctx1 =
          (Inr ([] @ filter Q req),
           if \<exists>r\<in>set req. expired_or_zero ex r \<noteq> 0
           then handle_expired_reservations ctx1 tenant else ctx1)"
    unfolding Q_def by (rule check_headroom_defined[OF defd])
  then have h: "check_headroom lims us ex (map_of deltas) tenant req [] ctx1 = (Inr over, ctx2)"
    by (simp add: Qo trig ctx2_def)
  have n: "next_id (session ctx2) = next_id (session ctx)"
    by (simp add: ctx2_def ctx1_def handle_expired_fields)
  have "make_reservation_body tenant resources deltas ctx =
          (if over \<noteq> [] then (Inl (OverQuota (sort over)), ctx2)
           else (Inr (next_id (session ctx)), snd (create_reservation ctx2 tenant deltas)))"
    unfolding make_reservation_body_def Let_def req_def[symmetric] lims_def[symmetric]
    by (simp add: c h[unfolded us_def ex_def] create_reservation_eq n)
  then show ?thesis
    by (simp only: over_def ctx2_def ctx1_def req_def)
qed

lemma body_uncovered:
  assumes "\<not> (\<forall>r\<in>set (requested_resources ctx tenant resources deltas). r \<in> dom resources)"
  shows "\<exists>k calls. make_reservation_body tenant resources deltas ctx =
           (Inl (KeyError k), ctx\<lparr>counted := counted ctx @ calls\<rparr>) \<and>
           fst ` set calls \<subseteq> set (requested_resources ctx tenant resources deltas)"
proof -
  from count_resources_uncovered[OF assms, of tenant ctx] obtain k calls where
    c: "count_resources resources tenant (requested_resources ctx tenant resources deltas) ctx =
          (Inl (KeyError k), ctx\<lparr>counted := counted ctx @ calls\<rparr>)"
    and s: "fst ` set calls \<subseteq> set (requested_resources ctx tenant resources deltas)"
    by (elim exE conjE)
  have b: "make_reservation_body tenant resources deltas ctx =
          (Inl (KeyError k), ctx\<lparr>counted := counted ctx @ calls\<rparr>)"
    by (simp add: make_reservation_body_def Let_def c)
  show ?thesis
    by (intro exI conjI) (rule b, rule s)
qed

subsubsection \<open>The transaction\<close>

lemma make_reservation_fst:
  "fst (make_reservation ctx tenant resources deltas) =
     fst (make_reservation_body tenant resources deltas ctx)"
  by (simp add: make_reservation_def autonested_transaction_def session_begin_def
      split: prod.splits sum.splits)

lemma make_reservation_counted:
  "counted (snd (make_reservation ctx tenant resources deltas)) =
     counted (snd (make_reservation_body tenant resources deltas ctx))"
  by (simp add: make_reservation_def autonested_transaction_def session_begin_def
      split: prod.splits sum.splits)

lemma make_reservation_session:
  "session (snd (make_reservation ctx tenant resources deltas)) =
     (case fst (make_reservation_body tenant resources deltas ctx) of
        Inl e \<Rightarrow> session ctx
      | Inr rid \<Rightarrow> session (snd (make_reservation_body tenant resources deltas ctx)))"
  by (simp add: make_reservation_def autonested_transaction_def session_begin_def
      split: prod.splits sum.splits)

lemma body_fst:
  assumes "\<forall>r\<in>set (requested_resources ctx tenant resources deltas). r \<in> dom resources"
  shows "fst (make_reservation_body tenant resources deltas ctx) =
    (if filter (over_limit ctx tenant resources deltas)
          (requested_resources ctx tenant resources deltas) \<noteq> []
     then Inl (OverQuota (sort (filter (over_limit ctx tenant resources deltas)
              (requested_resources ctx tenant resources deltas))))
     else Inr (next_id (session ctx)))"
  by (simp add: body_covered[OF assms])

lemma body_counted:
  assumes "\<forall>r\<in>set (requested_resources ctx tenant resources deltas). r \<in> dom resources"
  shows "counted (snd (make_reservation_body tenant resources deltas ctx)) =
     counted ctx @ map (\<lambda>r. (r, tenant)) (requested_resources ctx tenant resources deltas)"
  by (simp add: body_covered[OF assms] handle_expired_fields create_reservation_def)


lemma body_reservations:
  assumes "\<forall>r\<in>set (requested_resources ctx tenant resources deltas). r \<in> dom resources"
  shows "reservations (session (snd (make_reservation_body tenant resources deltas ctx))) =
     (if reclaim_due ctx tenant resources deltas then unexpired_rows ctx tenant
      else reservations (session ctx)) @
     (if filter (over_limit ctx tenant resources deltas)
           (requested_resources ctx tenant resources deltas) \<noteq> []
      then [] else [new_reservation ctx tenant deltas])"
  by (simp add: body_covered[OF assms] handle_expired_fields create_reservation_def
      new_reservation_def reclaim_due_def unexpired_rows_def)

lemma uncovered_fst:
  assumes "\<not> (\<forall>r\<in>set (requested_resources ctx tenant resources deltas). r \<in> dom resources)"
  shows "\<exists>k. fst (make_reservation_body tenant resources deltas ctx) = Inl (KeyError k)"
proof -
  from body_uncovered[OF assms] obtain k calls where
    "make_reservation_body tenant resources deltas ctx =
       (Inl (KeyError k), ctx\<lparr>counted := counted ctx @ calls\<rparr>)"
    by (elim exE conjE)
  then have "fst (make_reservation_body tenant resources deltas ctx) = Inl (KeyError k)"
    by simp
  then show ?thesis ..
qed

lemma body_calls:
  "\<exists>calls. counted (snd (make_reservation_body tenant resources deltas ctx)) = counted ctx @ calls
     \<and> fst ` set calls \<subseteq> set (requested_resources ctx tenant resources deltas)"
proof (cases "\<forall>r\<in>set (requested_resources ctx tenant resources deltas). r \<in> dom resources")
  case True
  have s: "fst ` set (map (\<lambda>r. (r, tenant)) (requested_resources ctx tenant resources deltas))
             \<subseteq> set (requested_resources ctx tenant resources deltas)"
    by (simp add: image_image)
  show ?thesis
    by (intro exI conjI) (rule body_counted[OF True], rule s)
next
  case False
  from body_uncovered[OF False] obtain k calls where
    b: "make_reservation_body tenant resources deltas ctx =
       (Inl (KeyError k), ctx\<lparr>counted := counted ctx @ calls\<rparr>)"
    and s: "fst ` set calls \<subseteq> set (requested_resources ctx tenant resources deltas)"
    by (elim exE conjE)
  from b have c: "counted (snd (make_reservation_body tenant resources deltas ctx)) =
      counted ctx @ calls"
    by simp
  show ?thesis
    by (intro exI conjI) (rule c, rule s)
qed

lemma requested_empty:
  assumes "\<forall>k\<in>fst ` set deltas. \<exists>l. get_tenant_quotas ctx resources tenant k = Some l \<and> l < 0"
  shows "requested_resources ctx tenant resources deltas = []"
proof -
  have "\<forall>k\<in>set (remdups (map fst deltas)).
          \<not> \<not> (case get_tenant_quotas ctx resources tenant k of Some lim \<Rightarrow> lim < 0 | None \<Rightarrow> False)"
  proof
    fix k assume "k \<in> set (remdups (map fst deltas))"
    then have "k \<in> fst ` set deltas" by simp
    with assms obtain l where "get_tenant_quotas ctx resources tenant k = Some l" "l < 0"
      by blast
    then show "\<not> \<not> (case get_tenant_quotas ctx resources tenant k of
                      Some lim \<Rightarrow> lim < 0 | None \<Rightarrow> False)"
      by simp
  qed
  then show ?thesis
    unfolding requested_resources_def Let_def by (simp only: filter_empty_conv)
qed

lemma over_quota_requested:
  assumes "fst (make_reservation_body tenant resources deltas ctx) = Inl (OverQuota overs)"
  shows "set overs \<subseteq> set (requested_resources ctx tenant resources deltas)"
proof (cases "\<forall>r\<in>set (requested_resources ctx tenant resources deltas). r \<in> dom resources")
  case True
  from assms have "overs = sort (filter (over_limit ctx tenant resources deltas)
                       (requested_resources ctx tenant resources deltas))"
    by (simp add: body_fst[OF True] split: if_splits)
  then show ?thesis by auto
next
  case False
  from uncovered_fst[OF False] assms show ?thesis by auto
qed

text \<open>
  Claim C4. For a requested resource kind whose effective limit is negative,
  \<^verbatim>\<open>make_reservation\<close> never invokes the \<^verbatim>\<open>count\<close> of the kind (no call that it adds to
  the log names the kind), an \<^verbatim>\<open>OverQuota\<close> failure never names the kind, whatever the
  requested delta is, and when every key of \<^verbatim>\<open>deltas\<close> is unlimited the request is
  granted without any call of \<^verbatim>\<open>count\<close>.
\<close>

theorem unlimited_never_counted:
  assumes lim: "get_tenant_quotas ctx resources tenant r = Some lim"
    and neg: "lim < 0"
  shows "(\<exists>calls. counted (snd (make_reservation ctx tenant resources deltas)) = counted ctx @ calls
            \<and> r \<notin> fst ` set calls)
       \<and> (\<forall>overs. fst (make_reservation ctx tenant resources deltas) = Inl (OverQuota overs)
            \<longrightarrow> r \<notin> set overs)
       \<and> ((\<forall>k\<in>fst ` set deltas. \<exists>l. get_tenant_quotas ctx resources tenant k = Some l \<and> l < 0)
            \<longrightarrow> fst (make_reservation ctx tenant resources deltas) = Inr (next_id (session ctx))
              \<and> counted (snd (make_reservation ctx tenant resources deltas)) = counted ctx)"
proof (intro conjI allI impI)
  have nr: "r \<notin> set (requested_resources ctx tenant resources deltas)"
    using lim neg by (rule requested_not_unlimited)
  from body_calls[of tenant resources deltas ctx] obtain calls where
    c: "counted (snd (make_reservation_body tenant resources deltas ctx)) = counted ctx @ calls"
    and s: "fst ` set calls \<subseteq> set (requested_resources ctx tenant resources deltas)"
    by (elim exE conjE)
  from c have c': "counted (snd (make_reservation ctx tenant resources deltas)) = counted ctx @ calls"
    by (simp only: make_reservation_counted)
  from s nr have n: "r \<notin> fst ` set calls"
    by (rule contra_subsetD)
  show "\<exists>calls. counted (snd (make_reservation ctx tenant resources deltas)) = counted ctx @ calls
            \<and> r \<notin> fst ` set calls"
    by (intro exI conjI) (rule c', rule n)
  {
    fix overs
    assume "fst (make_reservation ctx tenant resources deltas) = Inl (OverQuota overs)"
    then have "fst (make_reservation_body tenant resources deltas ctx) = Inl (OverQuota overs)"
      by (simp only: make_reservation_fst)
    then have "set overs \<subseteq> set (requested_resources ctx tenant resources deltas)"
      by (rule over_quota_requested)
    then show "r \<notin> set overs"
      using nr by (rule contra_subsetD)
  }
  {
    assume a: "\<forall>k\<in>fst ` set deltas. \<exists>l. get_tenant_quotas ctx resources tenant k = Some l \<and> l < 0"
    then have e: "requested_resources ctx tenant resources deltas = []"
      by (rule requested_empty)
    then have cov: "\<forall>r\<in>set (requested_resources ctx tenant resources deltas). r \<in> dom resources"
      by simp
    show "fst (make_reservation ctx tenant resources deltas) = Inr (next_id (session ctx))"
      by (simp add: make_reservation_fst body_fst[OF cov] e)
    show "counted (snd (make_reservation ctx tenant resources deltas)) = counted ctx"
      by (simp add: make_reservation_counted body_counted[OF cov] e)
  }
qed

lemma requested1:
  "requested_resources ctx0 ''t1'' registry1 [(''vips'', 1000), (''ports'', 6)] = [''ports'']"
  by (simp add: requested_resources_def gtq_ctx0 registry1_def ports_def unlimited_kind_def)

lemma expired_delta_ctx0: "expired_delta ctx0 tenant r = 0"
  by (simp add: expired_delta_def expired_rows_def ctx0_def store0_def)

lemma over1:
  "over_limit ctx0 ''t1'' registry1 [(''vips'', 1000), (''ports'', 6)] ''ports''"
  by (simp add: over_limit_def headroom_def gtq_ctx0 expired_delta_ctx0 registry1_def ports_def)

theorem unlimited_never_counted_witness:
  "fst (make_reservation ctx0 ''t1'' registry1 [(''vips'', 1000)]) = Inr 0
   \<and> counted (snd (make_reservation ctx0 ''t1'' registry1 [(''vips'', 1000)])) = []
   \<and> fst (make_reservation ctx0 ''t1'' registry1 [(''vips'', 1000), (''ports'', 6)]) =
       Inl (OverQuota [''ports''])
   \<and> counted (snd (make_reservation ctx0 ''t1'' registry1 [(''vips'', 1000), (''ports'', 6)])) =
       [(''ports'', ''t1'')]"
proof -
  have a: "fst (make_reservation ctx0 ''t1'' registry1 [(''vips'', 1000)]) = Inr 0
   \<and> counted (snd (make_reservation ctx0 ''t1'' registry1 [(''vips'', 1000)])) = []"
    using unlimited_never_counted[of ctx0 registry1 "''t1''" "''vips''" "- 1" "[(''vips'', 1000)]"]
    by (simp add: limits1) (simp add: ctx0_def store0_def)
  have cov: "\<forall>r\<in>set (requested_resources ctx0 ''t1'' registry1 [(''vips'', 1000), (''ports'', 6)]).
               r \<in> dom registry1"
    by (simp only: requested1) (simp add: registry1_def)
  have b: "fst (make_reservation ctx0 ''t1'' registry1 [(''vips'', 1000), (''ports'', 6)]) =
       Inl (OverQuota [''ports''])"
    by (simp add: make_reservation_fst body_fst[OF cov] requested1 over1)
  have c: "counted (snd (make_reservation ctx0 ''t1'' registry1 [(''vips'', 1000), (''ports'', 6)])) =
       [(''ports'', ''t1'')]"
    by (simp add: make_reservation_counted body_counted[OF cov] requested1) (simp add: ctx0_def)
  from a b c show ?thesis
    by (intro conjI) simp_all
qed

lemma over_exists:
  "(filter P xs \<noteq> []) = (\<exists>x\<in>set xs. P x)"
  by (simp add: filter_empty_conv)

text \<open>
  Claim C3. When every requested resource kind that is not unlimited is registered and
  at least one of them is over its limit, \<^verbatim>\<open>make_reservation\<close> fails with \<^verbatim>\<open>OverQuota\<close>
  carrying the sorted list of all the requested kinds that are over their limit; the
  reservation rows after the call are the rows before it, and inside the transaction no
  row is added either.
\<close>

theorem over_quota_names_all:
  assumes cov: "\<forall>r\<in>set (requested_resources ctx tenant resources deltas). r \<in> dom resources"
    and over: "\<exists>r\<in>set (requested_resources ctx tenant resources deltas).
                 over_limit ctx tenant resources deltas r"
  shows "fst (make_reservation ctx tenant resources deltas) =
           Inl (OverQuota (sort (filter (over_limit ctx tenant resources deltas)
                  (requested_resources ctx tenant resources deltas))))
       \<and> reservations (session (snd (make_reservation ctx tenant resources deltas))) =
           reservations (session ctx)
       \<and> set (reservations (session (snd (make_reservation_body tenant resources deltas ctx))))
           \<subseteq> set (reservations (session ctx))"
proof (intro conjI)
  from over have ne: "filter (over_limit ctx tenant resources deltas)
                        (requested_resources ctx tenant resources deltas) \<noteq> []"
    by (simp only: over_exists)
  have b: "fst (make_reservation_body tenant resources deltas ctx) =
           Inl (OverQuota (sort (filter (over_limit ctx tenant resources deltas)
                  (requested_resources ctx tenant resources deltas))))"
    using ne by (simp add: body_fst[OF cov])
  then show "fst (make_reservation ctx tenant resources deltas) =
           Inl (OverQuota (sort (filter (over_limit ctx tenant resources deltas)
                  (requested_resources ctx tenant resources deltas))))"
    by (simp only: make_reservation_fst)
  show "reservations (session (snd (make_reservation ctx tenant resources deltas))) =
           reservations (session ctx)"
    by (simp add: make_reservation_session b)
  have "reservations (session (snd (make_reservation_body tenant resources deltas ctx))) =
          (if reclaim_due ctx tenant resources deltas then unexpired_rows ctx tenant
           else reservations (session ctx))"
    using ne by (simp add: body_reservations[OF cov])
  moreover have "set (unexpired_rows ctx tenant) \<subseteq> set (reservations (session ctx))"
    by (simp add: unexpired_rows_def)
  ultimately show "set (reservations (session (snd (make_reservation_body tenant resources deltas ctx))))
           \<subseteq> set (reservations (session ctx))"
    by simp
qed

lemma gtq_no_rows:
  "quotas (session ctx) = [] \<Longrightarrow>
   get_tenant_quotas ctx resources tenant = (\<lambda>key. map_option default_limit (resources key))"
  by (simp add: get_tenant_quotas_def model_query_def)

lemma requested2:
  "requested_resources ctx0 ''t1'' registry2 [(''vips'', 7), (''routers'', 3), (''ports'', 6)] =
     [''routers'', ''ports'']"
  by (simp add: requested_resources_def gtq_ctx0 registry2_def ports_def routers_def
      unlimited_kind_def)

lemma over2:
  "over_limit ctx0 ''t1'' registry2 [(''vips'', 7), (''routers'', 3), (''ports'', 6)] ''ports''"
  "over_limit ctx0 ''t1'' registry2 [(''vips'', 7), (''routers'', 3), (''ports'', 6)] ''routers''"
  by (simp_all add: over_limit_def headroom_def gtq_ctx0 expired_delta_ctx0 registry2_def
      ports_def routers_def)

theorem over_quota_names_all_witness:
  "fst (make_reservation ctx0 ''t1'' registry2 [(''vips'', 7), (''routers'', 3), (''ports'', 6)]) =
     Inl (OverQuota [''ports'', ''routers''])
   \<and> reservations (session (snd (make_reservation ctx0 ''t1'' registry2
        [(''vips'', 7), (''routers'', 3), (''ports'', 6)]))) = []"
proof -
  have cov: "\<forall>r\<in>set (requested_resources ctx0 ''t1'' registry2
                [(''vips'', 7), (''routers'', 3), (''ports'', 6)]). r \<in> dom registry2"
    by (simp only: requested2) (simp add: registry2_def)
  have over: "\<exists>r\<in>set (requested_resources ctx0 ''t1'' registry2
                [(''vips'', 7), (''routers'', 3), (''ports'', 6)]).
            over_limit ctx0 ''t1'' registry2 [(''vips'', 7), (''routers'', 3), (''ports'', 6)] r"
    by (simp only: requested2) (simp add: over2)
  have r: "reservations (session ctx0) = []"
    by (simp add: ctx0_def store0_def)
  from over_quota_names_all[OF cov over] show ?thesis
    by (simp add: requested2 over2 r)
qed

text \<open>
  Claim C1. When every requested resource kind that is not unlimited is registered (the
  registry covers the keys of \<^verbatim>\<open>deltas\<close>), each such kind has an effective limit, a
  count and a requested delta, its headroom is the limit minus (the count minus the
  summed deltas of the expired reservations of the tenant for the kind), and it is over
  its limit exactly when the headroom is strictly less than the requested delta;
  \<^verbatim>\<open>make_reservation\<close> raises \<^verbatim>\<open>OverQuota\<close> with exactly the kinds that are over their
  limit when there is one, and returns the identifier of the new reservation when there
  is none.
\<close>

theorem make_reservation_headroom:
  assumes cov: "\<forall>r\<in>set (requested_resources ctx tenant resources deltas). r \<in> dom resources"
  shows "(\<forall>r\<in>set (requested_resources ctx tenant resources deltas).
            \<exists>res lim d. resources r = Some res
              \<and> get_tenant_quotas ctx resources tenant r = Some lim
              \<and> map_of deltas r = Some d
              \<and> headroom ctx tenant resources r =
                  Some (lim - (count_usage res tenant - expired_delta ctx tenant r))
              \<and> over_limit ctx tenant resources deltas r =
                  (lim - (count_usage res tenant - expired_delta ctx tenant r) < d))
       \<and> fst (make_reservation ctx tenant resources deltas) =
           (if \<exists>r\<in>set (requested_resources ctx tenant resources deltas).
                 over_limit ctx tenant resources deltas r
            then Inl (OverQuota (sort (filter (over_limit ctx tenant resources deltas)
                   (requested_resources ctx tenant resources deltas))))
            else Inr (next_id (session ctx)))"
proof (intro conjI ballI)
  fix r
  assume r: "r \<in> set (requested_resources ctx tenant resources deltas)"
  from requested_defined[OF cov r] obtain res lim d where
    v: "resources r = Some res" "get_tenant_quotas ctx resources tenant r = Some lim"
       "map_of deltas r = Some d"
    by (elim exE conjE)
  note o = over_limit_covered[OF v]
  show "\<exists>res lim d. resources r = Some res
              \<and> get_tenant_quotas ctx resources tenant r = Some lim
              \<and> map_of deltas r = Some d
              \<and> headroom ctx tenant resources r =
                  Some (lim - (count_usage res tenant - expired_delta ctx tenant r))
              \<and> over_limit ctx tenant resources deltas r =
                  (lim - (count_usage res tenant - expired_delta ctx tenant r) < d)"
    by (intro exI conjI) (rule v(1), rule v(2), rule v(3), rule o[THEN conjunct1],
        rule o[THEN conjunct2])
next
  show "fst (make_reservation ctx tenant resources deltas) =
           (if \<exists>r\<in>set (requested_resources ctx tenant resources deltas).
                 over_limit ctx tenant resources deltas r
            then Inl (OverQuota (sort (filter (over_limit ctx tenant resources deltas)
                   (requested_resources ctx tenant resources deltas))))
            else Inr (next_id (session ctx)))"
    by (simp only: make_reservation_fst body_fst[OF cov] over_exists)
qed

lemma requested_r:
  "requested_resources ctx_pending ''t1'' registry_r [(''R'', d)] = [''R'']"
  by (simp add: requested_resources_def gtq_no_rows ctx_pending_def registry_r_def tracked_def)

lemma headroom_r: "headroom ctx_pending ''t1'' registry_r ''R'' = Some 3"
  by (simp add: headroom_def gtq_no_rows expired_delta_def expired_rows_def ctx_pending_def
      pending_row_def registry_r_def tracked_def)

theorem make_reservation_headroom_witness:
  "headroom ctx_pending ''t1'' registry_r ''R'' = Some 3
   \<and> fst (make_reservation ctx_pending ''t1'' registry_r [(''R'', 3)]) = Inr 1
   \<and> fst (make_reservation ctx_pending ''t1'' registry_r [(''R'', 4)]) = Inl (OverQuota [''R''])"
proof -
  have cov: "\<forall>r\<in>set (requested_resources ctx_pending ''t1'' registry_r [(''R'', d)]).
               r \<in> dom registry_r" for d
    by (simp only: requested_r) (simp add: registry_r_def)
  have n: "next_id (session ctx_pending) = 1"
    by (simp add: ctx_pending_def)
  have a: "fst (make_reservation ctx_pending ''t1'' registry_r [(''R'', 3)]) = Inr 1"
    using make_reservation_headroom[OF cov[of 3]]
    by (simp add: requested_r over_limit_def headroom_r n)
  have b: "fst (make_reservation ctx_pending ''t1'' registry_r [(''R'', 4)]) =
             Inl (OverQuota [''R''])"
    using make_reservation_headroom[OF cov[of 4]]
    by (simp add: requested_r over_limit_def headroom_r n)
  from headroom_r a b show ?thesis
    by (intro conjI)
qed









end
